theory Spec2Isabelle
  imports Complex_Main
begin

text \<open>
  A model of IndxNodeLoader, the command-line loader that takes a dataset through the
  life cycle of a remote search service, and proofs about its orchestration. The file
  \<open>src/types/indx-search-lib.ts\<close> holds three modules one after the other: the types
  of the service (lines 1-184), \<open>config/dataset-config.ts\<close> (lines 186-266) and
  \<open>api/load-api.ts\<close> (lines 268-1130); line numbers below are lines of that file.
  The functions of the API layer that \<open>loadDataset\<close> never calls are left out.
\<close>

section \<open>Types of the search service (lines 22-184)\<close>

text \<open>
  The enums keep their constructors; the numeric value TypeScript gives each member is
  the \<open>_code\<close> function beside it.
\<close>

datatype SystemState = Hibernated | Created | Loading | Loaded | Indexing | Ready | Error

fun SystemState_code :: "SystemState \<Rightarrow> int" where
  "SystemState_code Hibernated = -1"
| "SystemState_code Created = 0"
| "SystemState_code Loading = 1"
| "SystemState_code Loaded = 2"
| "SystemState_code Indexing = 3"
| "SystemState_code Ready = 4"
| "SystemState_code Error = 255"

datatype Weight = High | Med | Low

fun Weight_code :: "Weight \<Rightarrow> int" where
  "Weight_code Weight.High = 0"
| "Weight_code Weight.Med = 1"
| "Weight_code Weight.Low = 2"

datatype BoostStrength = Low | Medium | High

fun BoostStrength_code :: "BoostStrength \<Rightarrow> int" where
  "BoostStrength_code BoostStrength.Low = 1"
| "BoostStrength_code BoostStrength.Medium = 2"
| "BoostStrength_code BoostStrength.High = 3"

record LicenseInfo =
  description :: "string option"
  documentLimit :: int
  documentLimitExceeded :: bool
  expirationDate :: string
  licensed :: bool
  licensedTo :: "string option"
  licenseFileName :: "string option"
  licenseType :: "string option"
  validLicense :: bool

record SystemStatus =
  documentCount :: int
  errorMessage :: "string option"
  invalidArgument :: bool
  invalidDataSetName :: bool
  invalidState :: bool
  licenseInfo :: LicenseInfo
  reIndexRequired :: bool
  searchCounter :: int
  secondsToIndex :: int
  systemState :: SystemState
  timeOfInstanceCreation :: string
  timeOfLastIndexBuild :: string
  tooLongClientText :: bool
  tooLongSearchText :: bool
  unknownConfigurationError :: bool
  version :: "string option"

record SearchRecord =
  documentKey :: int
  score :: real

record StringInt32KeyValuePair =
  key :: string
  val :: int

record Result =
  records :: "SearchRecord list option"
  facets :: "(string \<times> StringInt32KeyValuePair list) list option"
  didTimeOut :: bool
  truncationIndex :: int
  truncationScore :: real

record FilterProxy =
  id' :: string
  fieldName :: string

text \<open>The declared body of a combine-filters call (lines 169-173).\<close>

record CombinedFilterProxy =
  filter1 :: FilterProxy
  filter2 :: FilterProxy
  useAnd :: bool

record BoostProxy =
  filterProxy :: FilterProxy
  boostStrength :: BoostStrength

record JWT =
  token :: string

section \<open>Dataset descriptors (lines 186-266)\<close>

record SearchableField =
  name :: string
  weight :: int

record DatasetConfig =
  name :: string
  filePath :: string
  searchableFields :: "SearchableField list"
  wordIndexingFields :: "string list"
  filterableFields :: "string list"
  facetableFields :: "string list"
  sortableFields :: "string list"
  testQuery :: string

definition tmdb :: DatasetConfig where
  "tmdb =
    \<lparr> DatasetConfig.name = ''tmdb'',
      filePath = ''data/tmdb_top10k.json'',
      searchableFields =
        [ \<lparr> SearchableField.name = ''title'', weight = Weight_code Weight.High \<rparr>,
          \<lparr> SearchableField.name = ''original_title'', weight = Weight_code Weight.Med \<rparr>,
          \<lparr> SearchableField.name = ''description'', weight = Weight_code Weight.Med \<rparr>,
          \<lparr> SearchableField.name = ''actors'', weight = Weight_code Weight.Low \<rparr> ],
      wordIndexingFields = [''title''],
      filterableFields =
        [''release_year'', ''vote_average'', ''vote_count_tier'', ''genres'', ''decade'',
         ''actors'', ''language''],
      facetableFields =
        [''release_year'', ''vote_average'', ''vote_count_tier'', ''genres'', ''decade'',
         ''actors'', ''language''],
      sortableFields = [''popularity'', ''vote_average''],
      testQuery = ''titanic'' \<rparr>"

definition pokedex :: DatasetConfig where
  "pokedex =
    \<lparr> DatasetConfig.name = ''pokedex'',
      filePath = ''data/pokedex.json'',
      searchableFields =
        [ \<lparr> SearchableField.name = ''name'', weight = Weight_code Weight.High \<rparr>,
          \<lparr> SearchableField.name = ''type1'', weight = Weight_code Weight.Med \<rparr>,
          \<lparr> SearchableField.name = ''type2'', weight = Weight_code Weight.Low \<rparr> ],
      wordIndexingFields = [''name'', ''type1'', ''type2''],
      filterableFields = [''speed'', ''attack'', ''hp'', ''type1'', ''type2'', ''is_legendary''],
      facetableFields = [''speed'', ''attack'', ''hp'', ''type1'', ''type2'', ''is_legendary''],
      sortableFields = [''name'', ''speed''],
      testQuery = ''raic'' \<rparr>"

text \<open>
  \<open>getConfig\<close> lowercases the name with JavaScript's \<open>String.prototype.toLowerCase\<close>,
  which is Unicode-aware and not part of the repository: it is the parameter
  \<open>lower\<close>. The \<open>switch\<close> compares the lowercased name with the two literals in order;
  \<open>null\<close> is \<open>None\<close>.
\<close>

definition getConfig :: "(string \<Rightarrow> string) \<Rightarrow> string \<Rightarrow> DatasetConfig option" where
  "getConfig lower datasetName =
    (let lowerName = lower datasetName in
     if lowerName = ''tmdb'' then Some tmdb
     else if lowerName = ''pokedex'' then Some pokedex
     else None)"

definition getAvailableDatasets :: "string list" where
  "getAvailableDatasets = [''tmdb'', ''pokedex'']"

section \<open>Requests, replies and the console\<close>

text \<open>
  A request body is serialised by axios with \<open>JSON.stringify\<close>, which writes the
  properties of an object literal in the order the literal gives them: an object is an
  association list.
\<close>

datatype json =
    JNull
  | JBool bool
  | JNum real
  | JStr string
  | JArr "json list"
  | JObj "(string \<times> json) list"

datatype verb = GET | POST | PUT

datatype endpoint =
    CreateOrOpen | AnalyzeString | GetAllFields | GetStatus
  | SetSearchableFields | SetFilterableFields | SetFacetableFields | SetSortableFields
  | SetWordIndexingFields
  | GetSearchableFields | GetSortableFields | GetFacetableFields | GetFilterableFields
  | GetWordIndexingFields
  | CreateRangeFilter | CreateValueFilter | CombineFilters | CreateBoost
  | LoadStream | GetNumberOfJsonRecordsInDb | IndexDataSet | Search | GetJson | Login

datatype content =
    NoContent
  | Text string
  | Stream string
  | Json json

text \<open>
  The URL of every call is the template \<open>`${route}/<Endpoint>/${dataSetName}`\<close>; the
  request keeps its three parts (\<open>login\<close> posts to the fixed \<open>api/login\<close>).
  \<open>headers\<close> are the headers the call site passes itself.
\<close>

record request =
  verb :: verb
  route :: string
  endpoint :: endpoint
  dataSet :: string
  content :: content
  headers :: "(string \<times> string) list"

text \<open>
  \<open>response.data\<close> is untyped at run time; each call site reads it at the type it
  declares (\<open>client.get<SystemStatus>\<close>, \<open>response.data as SystemStatus\<close>), an
  unchecked cast, and no call site looks at the value before it returns it. A reply
  whose body is the JSON text \<open>null\<close> gives \<open>null\<close>, and a reply with an empty body
  gives the empty string \<open>''\<close>, whatever its status. \<open>'a js\<close> is a value the program
  holds at the declared type \<open>'a\<close>: \<open>null\<close>, the empty string, or a value of the
  type. \<open>payload\<close> gives a body that is neither \<open>null\<close> nor empty as read at each of
  the declared types.
\<close>

datatype 'a js = Null | Blank | Val 'a

record payload =
  asSystemStatus :: SystemStatus
  asStrings :: "string list"
  asFilterProxy :: FilterProxy
  asBoostProxy :: BoostProxy
  asNumber :: int
  asResult :: Result
  asJWT :: JWT

record AxiosResponse =
  status :: int
  statusText :: string
  data :: "payload js"

text \<open>A caught error: its \<open>message\<close> and, for an axios error that carries a
  response, \<open>error.response.status\<close> and \<open>error.response.data\<close> (as text).\<close>

record JsError =
  message :: string
  responseStatus :: "int option"
  responseData :: "string option"

text \<open>An awaited request either resolves with a response or rejects with an error.\<close>

datatype reply = Resolved AxiosResponse | Rejected JsError

text \<open>
  The remote service is a collaborator the program does not control: \<open>srv n\<close> is the
  reply to the request the program sends after \<open>n\<close> earlier ones. The program sends
  its requests one at a time, so every behaviour of a service towards one run is such
  a sequence.
\<close>

type_synonym server = "nat \<Rightarrow> reply"

text \<open>One constructor per \<open>ConsoleHelper\<close> method (utils/console-helper.ts) and for
  \<open>console.log\<close> and \<open>console.error\<close>; colours and glyphs are left out.\<close>

datatype line =
    WriteHeader string
  | WriteSuccess string
  | WriteInfo string
  | WriteWarning string
  | WriteError string
  | WriteProgress string
  | ConsoleLog string
  | ConsoleError string

text \<open>
  What the program reads from its host and cannot be computed in the model: the file
  system (\<open>readFile p\<close> is the content of the file at \<open>p\<close>, \<open>None\<close> when nothing
  exists there), \<open>path.resolve\<close>, \<open>toLowerCase\<close>, the error a
  read of a missing file throws, the message of the \<open>TypeError\<close> the engine raises
  for a failing expression, the renderings of floating-point numbers, locale
  numbers, error objects and JSON text, and the two wall-clock durations the program
  measures.
\<close>

record host =
  readFile :: "string \<Rightarrow> string option"
  resolve :: "string \<Rightarrow> string"
  toLowerCase :: "string \<Rightarrow> string"
  toFixed :: "nat \<Rightarrow> real \<Rightarrow> string"
  toLocaleString :: "int \<Rightarrow> string"
  noSuchFile :: "string \<Rightarrow> JsError"
  inspect :: "JsError \<Rightarrow> string"
  typeError :: "string \<Rightarrow> string"
  stringify :: "payload js \<Rightarrow> string"
  loadingDuration :: real
  indexingDuration :: real

text \<open>The client's defaults, set once by \<open>setBearerToken\<close> or \<open>login\<close>.\<close>

record client =
  baseURL :: string
  authorization :: "string option"

text \<open>The state a run changes: the requests sent so far, oldest first, the console
  output, oldest first, and the client's defaults.\<close>

record world =
  sent :: "request list"
  console :: "line list"
  defaults :: client

text \<open>
  How a computation stops short of a value: \<open>Return\<close> is an early \<open>return\<close> of
  \<open>loadDataset\<close> or \<open>main\<close>, \<open>Exit c\<close> is \<open>process.exit(c)\<close>, \<open>Throw m\<close> an
  uncaught \<open>Error\<close> with message \<open>m\<close>. The polling loops of the source have no bound;
  the model follows them for a given number of polls and stops with \<open>Polling\<close> when
  the loop is still running after that many.
\<close>

datatype stop = Return | Exit int | Throw string | Polling

type_synonym 'a io = "world \<Rightarrow> (stop + 'a) \<times> world"

definition result :: "'a \<Rightarrow> 'a io" where
  "result a w = (Inr a, w)"

definition halt :: "stop \<Rightarrow> 'a io" where
  "halt s w = (Inl s, w)"

definition andThen :: "'a io \<Rightarrow> ('a \<Rightarrow> 'b io) \<Rightarrow> 'b io" where
  "andThen m f w = (case m w of (Inl s, w') \<Rightarrow> (Inl s, w') | (Inr a, w') \<Rightarrow> f a w')"

definition emit :: "line list \<Rightarrow> unit io" where
  "emit ls w = (Inr (), w\<lparr>console := console w @ ls\<rparr>)"

definition send :: "server \<Rightarrow> request \<Rightarrow> reply io" where
  "send srv req w = (Inr (srv (length (sent w))), w\<lparr>sent := sent w @ [req]\<rparr>)"

definition is2xx :: "AxiosResponse \<Rightarrow> bool" where
  "is2xx response \<longleftrightarrow> status response \<ge> 200 \<and> status response < 300"

text \<open>Decimal rendering of an integer, as a template literal renders it.\<close>

fun digits :: "nat \<Rightarrow> nat \<Rightarrow> string" where
  "digits 0 n = []"
| "digits (Suc fuel) n =
    (if n < 10 then [char_of (48 + n)]
     else digits fuel (n div 10) @ [char_of (48 + n mod 10)])"

definition showNat :: "nat \<Rightarrow> string" where
  "showNat n = digits (Suc n) n"

definition showInt :: "int \<Rightarrow> string" where
  "showInt i = (if i < 0 then ''-'' @ showNat (nat (- i)) else showNat (nat i))"

definition join :: "string \<Rightarrow> string list \<Rightarrow> string" where
  "join sep xs = (case xs of [] \<Rightarrow> [] | y # ys \<Rightarrow> foldl (\<lambda>acc x. acc @ sep @ x) y ys)"

section \<open>The API layer (lines 289-818)\<close>

definition SEARCH_CONTROLLER_ROUTE :: string where
  "SEARCH_CONTROLLER_ROUTE = ''api''"

definition apiRequest :: "verb \<Rightarrow> endpoint \<Rightarrow> string \<Rightarrow> content \<Rightarrow> request" where
  "apiRequest v e dataSetName c =
    \<lparr> verb = v, route = SEARCH_CONTROLLER_ROUTE, endpoint = e, dataSet = dataSetName,
      content = c, headers = [] \<rparr>"

text \<open>\<open>error.response?.data || error.message\<close>: the response data unless it is
  missing or the empty string.\<close>

definition dataOrMessage :: "JsError \<Rightarrow> string" where
  "dataOrMessage error =
    (case responseData error of
       Some d \<Rightarrow> if d = [] then message error else d
     | None \<Rightarrow> message error)"

text \<open>\<open>analyze\<close> (lines 296-313): reading the file throws when it is missing, and
  the \<open>catch\<close> covers that too. A 2xx response returns \<open>response.data\<close> as it is.\<close>

definition analyze :: "host \<Rightarrow> server \<Rightarrow> string \<Rightarrow> string \<Rightarrow> SystemStatus js io" where
  "analyze h srv dataSetName fileName =
    (case readFile h fileName of
       None \<Rightarrow>
         andThen (emit [ConsoleError (''Analyze error: '' @ inspect h (noSuchFile h fileName))])
           (\<lambda>_. result Null)
     | Some fullFile \<Rightarrow>
         andThen
           (send srv ((apiRequest POST AnalyzeString dataSetName (Text fullFile))
              \<lparr> headers := [(''Content-Type'', ''text/plain'')] \<rparr>))
           (\<lambda>r. case r of
              Resolved response \<Rightarrow>
                if is2xx response then result (map_js asSystemStatus (data response))
                else result Null
            | Rejected error \<Rightarrow>
                andThen (emit [ConsoleError (''Analyze error: '' @ inspect h error)])
                  (\<lambda>_. result Null)))"

text \<open>\<open>combineFilters\<close>, \<open>createBoost\<close>, \<open>createRangeFilter\<close> and
  \<open>createValueFilter\<close> (lines 352-439) send the object they are given as it is
  serialised and return \<open>response.data\<close> of a 2xx response as it is, or \<open>null\<close> on
  any failure, printing nothing.\<close>

definition combineFilters :: "server \<Rightarrow> string \<Rightarrow> json \<Rightarrow> FilterProxy js io" where
  "combineFilters srv dataSetName combinedFilter =
    andThen (send srv (apiRequest PUT CombineFilters dataSetName (Json combinedFilter)))
      (\<lambda>r. case r of
         Resolved response \<Rightarrow>
           if is2xx response then result (map_js asFilterProxy (data response))
           else result Null
       | Rejected error \<Rightarrow> result Null)"

definition createBoost :: "server \<Rightarrow> string \<Rightarrow> json \<Rightarrow> BoostProxy js io" where
  "createBoost srv dataSetName boost =
    andThen (send srv (apiRequest PUT CreateBoost dataSetName (Json boost)))
      (\<lambda>r. case r of
         Resolved response \<Rightarrow>
           if is2xx response then result (map_js asBoostProxy (data response))
           else result Null
       | Rejected error \<Rightarrow> result Null)"

text \<open>\<open>createOrOpenDataSet\<close> (lines 390-401).\<close>

definition createOrOpenDataSet :: "host \<Rightarrow> server \<Rightarrow> string \<Rightarrow> string \<Rightarrow> bool io" where
  "createOrOpenDataSet h srv route' dataSetName =
    andThen
      (send srv \<lparr> verb = PUT, route = route', endpoint = CreateOrOpen,
                  dataSet = dataSetName, content = Text [], headers = [] \<rparr>)
      (\<lambda>r. case r of
         Resolved response \<Rightarrow>
           andThen
             (if status response < 200 \<or> status response \<ge> 300
              then emit [ConsoleLog (''CreateOrOpenDataSet response error: '' @ statusText response)]
              else result ())
             (\<lambda>_. result (status response \<ge> 200 \<and> status response < 300))
       | Rejected error \<Rightarrow>
           andThen (emit [ConsoleError (''CreateOrOpenDataSet error: '' @ inspect h error)])
             (\<lambda>_. result False))"

definition createRangeFilter :: "server \<Rightarrow> string \<Rightarrow> json \<Rightarrow> FilterProxy js io" where
  "createRangeFilter srv dataSetName rangeFilter =
    andThen (send srv (apiRequest PUT CreateRangeFilter dataSetName (Json rangeFilter)))
      (\<lambda>r. case r of
         Resolved response \<Rightarrow>
           if is2xx response then result (map_js asFilterProxy (data response))
           else result Null
       | Rejected error \<Rightarrow> result Null)"

definition createValueFilter :: "server \<Rightarrow> string \<Rightarrow> json \<Rightarrow> FilterProxy js io" where
  "createValueFilter srv dataSetName valueFilter =
    andThen (send srv (apiRequest PUT CreateValueFilter dataSetName (Json valueFilter)))
      (\<lambda>r. case r of
         Resolved response \<Rightarrow>
           if is2xx response then result (map_js asFilterProxy (data response))
           else result Null
       | Rejected error \<Rightarrow> result Null)"

text \<open>
  The readers \<open>getAllFields\<close>, \<open>getFacetableFields\<close>, \<open>getFilterableFields\<close>,
  \<open>getSearchableFields\<close>, \<open>getJson\<close>, \<open>getSortableFields\<close> and
  \<open>getWordIndexingFields\<close> (lines 468-596) are one function body with a different
  request and different messages: a 2xx response returns its data as it is, any other
  status prints the first message and calls \<open>process.exit(-1)\<close>, and a rejected request
  prints the second and calls \<open>process.exit(-1)\<close>. The final \<open>return []\<close> is not
  reached: every path through the \<open>try\<close> and the \<open>catch\<close> returns or exits.
\<close>

definition readStrings ::
  "server \<Rightarrow> request \<Rightarrow> string \<Rightarrow> string \<Rightarrow> string list js io" where
  "readStrings srv req not2xx rejected =
    andThen (send srv req)
      (\<lambda>r. case r of
         Resolved response \<Rightarrow>
           if is2xx response then result (map_js asStrings (data response))
           else andThen (emit [ConsoleLog not2xx]) (\<lambda>_. halt (Exit (-1)))
       | Rejected error \<Rightarrow>
           andThen (emit [ConsoleLog rejected]) (\<lambda>_. halt (Exit (-1))))"

definition getAllFields :: "server \<Rightarrow> string \<Rightarrow> string list js io" where
  "getAllFields srv dataSetName =
    readStrings srv (apiRequest GET GetAllFields dataSetName NoContent)
      ''System status request failed, type any char to exit''
      ''GetAllFields request failed''"

definition getFacetableFields :: "server \<Rightarrow> string \<Rightarrow> string list js io" where
  "getFacetableFields srv dataSetName =
    readStrings srv (apiRequest GET GetFacetableFields dataSetName NoContent)
      ''GetFacetableFields failed, type any char to exit''
      ''GetFacetableFields request failed''"

definition getFilterableFields :: "server \<Rightarrow> string \<Rightarrow> string list js io" where
  "getFilterableFields srv dataSetName =
    readStrings srv (apiRequest GET GetFilterableFields dataSetName NoContent)
      ''GetFilterableFields failed, type any char to exit''
      ''GetFilterableFields request failed''"

definition getSearchableFields :: "server \<Rightarrow> string \<Rightarrow> string list js io" where
  "getSearchableFields srv dataSetName =
    readStrings srv (apiRequest GET GetSearchableFields dataSetName NoContent)
      ''System status request failed, type any char to exit''
      ''GetSearchableFields request failed''"

definition getJson :: "server \<Rightarrow> string \<Rightarrow> int list \<Rightarrow> string list js io" where
  "getJson srv dataSetName keys =
    readStrings srv
      (apiRequest POST GetJson dataSetName (Json (JArr (map (\<lambda>k. JNum (of_int k)) keys))))
      ''GetUserDataSets request failed, type any char to exit''
      ''GetJson request failed''"

definition getSortableFields :: "server \<Rightarrow> string \<Rightarrow> string list js io" where
  "getSortableFields srv dataSetName =
    readStrings srv (apiRequest GET GetSortableFields dataSetName NoContent)
      ''System status request failed, type any char to exit''
      ''GetSortableFields request failed''"

definition getWordIndexingFields :: "server \<Rightarrow> string \<Rightarrow> string list js io" where
  "getWordIndexingFields srv dataSetName =
    readStrings srv (apiRequest GET GetWordIndexingFields dataSetName NoContent)
      ''GetWordIndexingFields failed, type any char to exit''
      ''GetWordIndexingFields request failed''"

text \<open>\<open>getNumberOfJsonRecordsInDb\<close> (lines 601-612).\<close>

definition getNumberOfJsonRecordsInDb :: "server \<Rightarrow> string \<Rightarrow> int js io" where
  "getNumberOfJsonRecordsInDb srv dataSetName =
    andThen (send srv (apiRequest GET GetNumberOfJsonRecordsInDb dataSetName NoContent))
      (\<lambda>r. case r of
         Resolved response \<Rightarrow>
           if is2xx response then result (map_js asNumber (data response))
           else result (Val 0)
       | Rejected error \<Rightarrow> result (Val 0))"

text \<open>
  \<open>getStatus\<close> (lines 617-631). Its declared result is \<open>SystemStatus | null\<close>; a 2xx
  response returns \<open>response.data\<close> as it is. The final \<open>return null\<close> is not
  reached, since the \<open>try\<close> returns or exits on every response and the \<open>catch\<close>
  exits.
\<close>

definition getStatus :: "server \<Rightarrow> string \<Rightarrow> SystemStatus js io" where
  "getStatus srv dataSetName =
    andThen (send srv (apiRequest GET GetStatus dataSetName NoContent))
      (\<lambda>r. case r of
         Resolved response \<Rightarrow>
           if is2xx response then result (map_js asSystemStatus (data response))
           else andThen (emit [ConsoleLog ''System status request failed, type any char to exit''])
                  (\<lambda>_. halt (Exit (-1)))
       | Rejected error \<Rightarrow>
           andThen (emit [ConsoleLog ''GetStatus request failed'']) (\<lambda>_. halt (Exit (-1))))"

text \<open>\<open>indexDataSet\<close> (lines 655-662).\<close>

definition indexDataSet :: "server \<Rightarrow> string \<Rightarrow> bool io" where
  "indexDataSet srv dataSetName =
    andThen (send srv (apiRequest GET IndexDataSet dataSetName NoContent))
      (\<lambda>r. case r of
         Resolved response \<Rightarrow> result (is2xx response)
       | Rejected error \<Rightarrow> result False)"

text \<open>\<open>loadStreamAsync\<close> (lines 679-701): \<open>fs.statSync\<close> throws inside the \<open>try\<close>
  when the file is missing.\<close>

definition loadStreamAsync :: "host \<Rightarrow> server \<Rightarrow> string \<Rightarrow> string \<Rightarrow> bool io" where
  "loadStreamAsync h srv dataSetName fileName =
    (case readFile h fileName of
       None \<Rightarrow>
         andThen
           (emit [ConsoleError (''LoadStreamAsync error: '' @ dataOrMessage (noSuchFile h fileName))])
           (\<lambda>_. result False)
     | Some bytes \<Rightarrow>
         andThen
           (send srv ((apiRequest PUT LoadStream dataSetName (Stream bytes))
              \<lparr> headers := [(''Content-Type'', ''text/plain''),
                             (''Content-Length'', showNat (length bytes))] \<rparr>))
           (\<lambda>r. case r of
              Resolved response \<Rightarrow> result (is2xx response)
            | Rejected error \<Rightarrow>
                andThen (emit [ConsoleError (''LoadStreamAsync error: '' @ dataOrMessage error)])
                  (\<lambda>_. result False)))"

text \<open>\<open>search\<close> (lines 723-734).\<close>

definition search :: "host \<Rightarrow> server \<Rightarrow> json \<Rightarrow> string \<Rightarrow> Result js io" where
  "search h srv q dataSetName =
    andThen (send srv (apiRequest POST Search dataSetName (Json q)))
      (\<lambda>r. case r of
         Resolved response \<Rightarrow>
           if is2xx response then result (map_js asResult (data response)) else result Null
       | Rejected error \<Rightarrow>
           andThen (emit [ConsoleError (''Search error: '' @ inspect h error)])
             (\<lambda>_. result Null))"

text \<open>\<open>setFacetableFields\<close>, \<open>setFilterableFields\<close>, \<open>setSortableFields\<close> and
  \<open>setWordIndexingFields\<close> (lines 739-758, 799-818) put the array of names and return
  whether the status is 2xx, \<open>false\<close> when the request is rejected.\<close>

definition putNames :: "server \<Rightarrow> endpoint \<Rightarrow> string \<Rightarrow> string list \<Rightarrow> bool io" where
  "putNames srv e dataSetName fields' =
    andThen (send srv (apiRequest PUT e dataSetName (Json (JArr (map JStr fields')))))
      (\<lambda>r. case r of
         Resolved response \<Rightarrow> result (is2xx response)
       | Rejected error \<Rightarrow> result False)"

definition setFacetableFields :: "server \<Rightarrow> string \<Rightarrow> string list \<Rightarrow> bool io" where
  "setFacetableFields srv dataSetName fields' = putNames srv SetFacetableFields dataSetName fields'"

definition setFilterableFields :: "server \<Rightarrow> string \<Rightarrow> string list \<Rightarrow> bool io" where
  "setFilterableFields srv dataSetName fields' = putNames srv SetFilterableFields dataSetName fields'"

definition setSortableFields :: "server \<Rightarrow> string \<Rightarrow> string list \<Rightarrow> bool io" where
  "setSortableFields srv dataSetName fields' = putNames srv SetSortableFields dataSetName fields'"

definition setWordIndexingFields :: "server \<Rightarrow> string \<Rightarrow> string list \<Rightarrow> bool io" where
  "setWordIndexingFields srv dataSetName fields' =
    putNames srv SetWordIndexingFields dataSetName fields'"

text \<open>\<open>setSearchableFields\<close> (lines 783-794): \<open>tuples\<close> is the array the source builds
  with \<open>fields.map(f => ({ Item1: f.name, Item2: f.weight }))\<close>.\<close>

definition tuples :: "SearchableField list \<Rightarrow> json" where
  "tuples fields' =
    JArr (map (\<lambda>f. JObj [(''Item1'', JStr (SearchableField.name f)),
                           (''Item2'', JNum (of_int (weight f)))]) fields')"

definition setSearchableFields ::
  "server \<Rightarrow> string \<Rightarrow> SearchableField list \<Rightarrow> bool io" where
  "setSearchableFields srv dataSetName fields' =
    andThen (send srv (apiRequest PUT SetSearchableFields dataSetName (Json (tuples fields'))))
      (\<lambda>r. case r of
         Resolved response \<Rightarrow> result (is2xx response)
       | Rejected error \<Rightarrow>
           andThen (emit [ConsoleError (''SetSearchableFields error: '' @ dataOrMessage error)])
             (\<lambda>_. result False))"

section \<open>The load orchestrator: loadDataset (lines 839-1130)\<close>

text \<open>
  \<open>loadDataset\<close> is one function of some three hundred lines; the model cuts it at
  the source's own step comments into parts that run in sequence. An early
  \<open>return\<close> is \<open>halt Return\<close>.
\<close>

text \<open>Step 0, lines 840-859: the descriptor is not \<open>null\<close> and its data file exists.\<close>

definition validate :: "host \<Rightarrow> string \<Rightarrow> DatasetConfig option \<Rightarrow> DatasetConfig io" where
  "validate h datasetName config =
    (case config of
       None \<Rightarrow>
         andThen
           (emit [WriteError (''Unknown dataset: '' @ datasetName),
                  WriteInfo (''Available datasets: '' @ join '', '' [''tmdb'', ''pokedex''])])
           (\<lambda>_. halt Return)
     | Some cfg \<Rightarrow>
         (case readFile h (filePath cfg) of
            None \<Rightarrow>
              andThen
                (emit [WriteError (''Data file not found: '' @ filePath cfg),
                       WriteInfo ''Please ensure the data file exists in the correct location.'',
                       WriteInfo (''Expected path: '' @ resolve h (filePath cfg))])
                (\<lambda>_. halt Return)
          | Some bytes \<Rightarrow>
              andThen
                (emit [WriteHeader (''Loading Dataset: '' @ DatasetConfig.name cfg),
                       WriteInfo (''Data file: '' @ filePath cfg),
                       WriteInfo (''File size: ''
                         @ toFixed h 2 (real (length bytes) / 1024 / 1024) @ '' MB''),
                       ConsoleLog []])
                (\<lambda>_. result cfg)))"

text \<open>Step 2, lines 861-881. \<open>createOrOpenDataSet\<close> catches every error itself, so the
  \<open>catch\<close> around the call (the only use of \<open>uri\<close>) never runs.\<close>

definition openDataset :: "host \<Rightarrow> server \<Rightarrow> DatasetConfig \<Rightarrow> unit io" where
  "openDataset h srv config =
    andThen (emit [WriteInfo ''Creating or opening dataset...'']) (\<lambda>_.
    andThen (createOrOpenDataSet h srv SEARCH_CONTROLLER_ROUTE (DatasetConfig.name config))
      (\<lambda>createSuccess.
        if \<not> createSuccess then
          andThen
            (emit [WriteError ''Failed to create or open dataset.'',
                   WriteInfo ''Troubleshooting:'',
                   WriteInfo ''  1. Verify API_URI in .env.local is correct'',
                   WriteInfo ''  2. Ensure IndxCloudApi is running'',
                   WriteInfo ''  3. Check that BEARER_TOKEN is valid (not expired)''])
            (\<lambda>_. halt Return)
        else emit [WriteSuccess ''Dataset opened successfully'']))"

text \<open>
  Steps 3 and 4, lines 883-900. \<open>status0 === null\<close> holds of \<open>null\<close> only. The
  field list is used as it came: \<open>list.length\<close> of \<open>null\<close> throws a \<open>TypeError\<close>
  before anything is printed; the empty string has length 0 and no \<open>join\<close>, so the
  call on line 899 throws after line 898 has printed.
\<close>

definition analyzeData :: "host \<Rightarrow> server \<Rightarrow> DatasetConfig \<Rightarrow> unit io" where
  "analyzeData h srv config =
    andThen (emit [WriteInfo ''Analyzing data structure...'']) (\<lambda>_.
    andThen (analyze h srv (DatasetConfig.name config) (filePath config)) (\<lambda>status0.
      if status0 = Null then
        andThen (emit [WriteError ''Failed to analyze data file'']) (\<lambda>_. halt Return)
      else
        andThen (emit [WriteSuccess ''Data structure analyzed'']) (\<lambda>_.
        andThen (getStatus srv (DatasetConfig.name config)) (\<lambda>_.
        andThen (emit [WriteInfo ''Discovering fields in dataset...'']) (\<lambda>_.
        andThen (getAllFields srv (DatasetConfig.name config)) (\<lambda>list'.
          case list' of
            Null \<Rightarrow> halt (Throw (typeError h ''list.length''))
          | Blank \<Rightarrow>
              andThen (emit [WriteSuccess (''Found '' @ showNat 0 @ '' fields'')])
                (\<lambda>_. halt (Throw (typeError h ''list.join'')))
          | Val fields' \<Rightarrow>
              emit [WriteSuccess (''Found '' @ showNat (length fields') @ '' fields''),
                    WriteInfo (''Fields: '' @ join '', '' fields'),
                    ConsoleLog []]))))))"

text \<open>Steps 5 to 9, lines 902-958: the five set calls, each followed by its check.\<close>

definition configureSearchable :: "server \<Rightarrow> DatasetConfig \<Rightarrow> unit io" where
  "configureSearchable srv config =
    andThen (emit [WriteInfo ''Configuring searchable fields...'']) (\<lambda>_.
    andThen (setSearchableFields srv (DatasetConfig.name config) (searchableFields config))
      (\<lambda>myres.
        if \<not> myres then
          andThen (emit [WriteError ''Failed to set searchable fields'']) (\<lambda>_. halt Return)
        else
          emit (WriteSuccess (''Configured '' @ showNat (length (searchableFields config))
                  @ '' searchable fields'')
                # map (\<lambda>field. WriteInfo (''  - '' @ SearchableField.name field
                                            @ '' (weight: '' @ showInt (weight field) @ '')''))
                    (searchableFields config))))"

definition configureFilterable :: "server \<Rightarrow> DatasetConfig \<Rightarrow> unit io" where
  "configureFilterable srv config =
    andThen (emit [WriteInfo ''Configuring filterable fields...'']) (\<lambda>_.
    andThen (setFilterableFields srv (DatasetConfig.name config) (filterableFields config))
      (\<lambda>myres2.
        if \<not> myres2 then
          andThen (emit [WriteError ''Failed to set filterable fields'']) (\<lambda>_. halt Return)
        else
          emit [WriteSuccess (''Configured '' @ showNat (length (filterableFields config))
                  @ '' filterable fields'')]))"

definition configureFacetable :: "server \<Rightarrow> DatasetConfig \<Rightarrow> unit io" where
  "configureFacetable srv config =
    andThen (emit [WriteInfo ''Configuring facetable fields...'']) (\<lambda>_.
    andThen (setFacetableFields srv (DatasetConfig.name config) (facetableFields config))
      (\<lambda>facetsResult.
        if \<not> facetsResult then
          andThen (emit [WriteError ''Failed to set facetable fields'']) (\<lambda>_. halt Return)
        else
          emit [WriteSuccess (''Configured '' @ showNat (length (facetableFields config))
                  @ '' facetable fields'')]))"

definition configureSortable :: "server \<Rightarrow> DatasetConfig \<Rightarrow> unit io" where
  "configureSortable srv config =
    andThen (emit [WriteInfo ''Configuring sortable fields...'']) (\<lambda>_.
    andThen (setSortableFields srv (DatasetConfig.name config) (sortableFields config))
      (\<lambda>sortres.
        if \<not> sortres then
          andThen (emit [WriteError ''Failed to set sortable fields'']) (\<lambda>_. halt Return)
        else
          emit [WriteSuccess (''Configured '' @ showNat (length (sortableFields config))
                  @ '' sortable fields'')]))"

definition configureWordIndexing :: "server \<Rightarrow> DatasetConfig \<Rightarrow> unit io" where
  "configureWordIndexing srv config =
    andThen (emit [WriteInfo ''Configuring word indexing fields...'']) (\<lambda>_.
    andThen (setWordIndexingFields srv (DatasetConfig.name config) (wordIndexingFields config))
      (\<lambda>wordIndexRes.
        if \<not> wordIndexRes then
          andThen (emit [WriteError ''Failed to set word indexing fields'']) (\<lambda>_. halt Return)
        else
          emit (WriteSuccess (''Configured '' @ showNat (length (wordIndexingFields config))
                  @ '' word indexing fields'')
                # map (\<lambda>field. WriteInfo (''  - '' @ field)) (wordIndexingFields config)
                @ [ConsoleLog []])))"

definition configureFields :: "server \<Rightarrow> DatasetConfig \<Rightarrow> unit io" where
  "configureFields srv config =
    andThen (configureSearchable srv config) (\<lambda>_.
    andThen (configureFilterable srv config) (\<lambda>_.
    andThen (configureFacetable srv config) (\<lambda>_.
    andThen (configureSortable srv config) (\<lambda>_.
    configureWordIndexing srv config))))"

text \<open>Step 10, lines 960-968: the five verification reads; their results are dropped.\<close>

definition verifyFields :: "server \<Rightarrow> DatasetConfig \<Rightarrow> unit io" where
  "verifyFields srv config =
    andThen (emit [WriteInfo ''Verifying field configuration...'']) (\<lambda>_.
    andThen (getSearchableFields srv (DatasetConfig.name config)) (\<lambda>_.
    andThen (getSortableFields srv (DatasetConfig.name config)) (\<lambda>_.
    andThen (getFacetableFields srv (DatasetConfig.name config)) (\<lambda>_.
    andThen (getFilterableFields srv (DatasetConfig.name config)) (\<lambda>_.
    andThen (getWordIndexingFields srv (DatasetConfig.name config)) (\<lambda>_.
      emit [WriteSuccess ''Field configuration verified'', ConsoleLog []]))))))"

text \<open>
  The optional filters, lines 970-1004. A \<open>FilterProxy\<close> the service returned is sent
  back with its two declared properties. \<open>filt1 && filt2\<close> and \<open>if (combFilt)\<close> test
  for truthiness: \<open>null\<close> and the empty string are falsy, an object is truthy.
\<close>

definition FilterProxy_json :: "FilterProxy \<Rightarrow> json" where
  "FilterProxy_json p = JObj [(''id'', JStr (id' p)), (''fieldName'', JStr (fieldName p))]"

definition createFilters :: "server \<Rightarrow> DatasetConfig \<Rightarrow> unit io" where
  "createFilters srv config =
    (if DatasetConfig.name config = ''pokedex'' then
       andThen
         (createRangeFilter srv (DatasetConfig.name config)
            (JObj [(''fieldName'', JStr ''speed''), (''lowerLimit'', JNum 10.5),
                   (''upperLimit'', JNum 50.0)]))
         (\<lambda>filt1.
       andThen
         (createValueFilter srv (DatasetConfig.name config)
            (JObj [(''fieldName'', JStr ''speed''), (''value'', JNum 50)]))
         (\<lambda>filt2.
           case (filt1, filt2) of
             (Val f1, Val f2) \<Rightarrow>
               andThen
                 (combineFilters srv (DatasetConfig.name config)
                    (JObj [(''a'', FilterProxy_json f1), (''b'', FilterProxy_json f2),
                           (''useAndOperation'', JBool True)]))
                 (\<lambda>combFilt.
                   case combFilt of
                     Val cf \<Rightarrow>
                       andThen
                         (createBoost srv (DatasetConfig.name config)
                            (JObj [(''filterProxy'', FilterProxy_json cf),
                                   (''boostStrength'',
                                    JNum (of_int (BoostStrength_code BoostStrength.High)))]))
                         (\<lambda>_. result ())
                   | _ \<Rightarrow> result ())
           | _ \<Rightarrow> result ()))
     else result ())"

text \<open>Step 11 up to the loop, lines 1006-1024; \<open>loadFromDb\<close> is the constant
  \<open>false\<close>. The status fetched on line 1024 is overwritten in the loop.\<close>

definition loadData :: "host \<Rightarrow> server \<Rightarrow> DatasetConfig \<Rightarrow> unit io" where
  "loadData h srv config =
    andThen
      (emit [WriteHeader ''Loading Data'',
             WriteInfo (''Streaming data from '' @ filePath config @ ''...'')])
      (\<lambda>_.
    andThen (loadStreamAsync h srv (DatasetConfig.name config) (filePath config)) (\<lambda>result2.
      if \<not> result2 then
        andThen (emit [WriteError ''Failed to load data'']) (\<lambda>_. halt Return)
      else
        andThen (getStatus srv (DatasetConfig.name config)) (\<lambda>_. result ())))"

text \<open>\<open>status.systemState\<close> where \<open>status\<close> is not \<open>null\<close>: the empty string has
  no such property, and the read gives \<open>undefined\<close>, here \<open>None\<close>.\<close>

definition systemStateOf :: "SystemStatus js \<Rightarrow> SystemState option" where
  "systemStateOf status' = (case status' of Val s \<Rightarrow> Some (systemState s) | _ \<Rightarrow> None)"

text \<open>
  The first polling loop, lines 1026-1037. \<open>loadingPoll\<close> is one pass through the body
  and returns \<open>proceed\<close>; its argument is \<open>dotCount\<close> after the increment. The
  100 ms sleep is not modelled. \<open>loadingLoop srv n fuel dotCount\<close> follows the
  \<open>do ... while (proceed)\<close> for at most \<open>fuel\<close> polls.
\<close>

definition loadingPoll :: "server \<Rightarrow> string \<Rightarrow> nat \<Rightarrow> bool io" where
  "loadingPoll srv dataSetName dotCount =
    andThen
      (emit [WriteProgress (''Loading data'' @ replicate (dotCount mod 4) (CHR ''.'') @ ''   '')])
      (\<lambda>_.
    andThen (getStatus srv dataSetName) (\<lambda>status'.
      result (if status' \<noteq> Null then systemStateOf status' = Some Loading else False)))"

fun loadingLoop :: "server \<Rightarrow> string \<Rightarrow> nat \<Rightarrow> nat \<Rightarrow> unit io" where
  "loadingLoop srv dataSetName 0 dotCount = halt Polling"
| "loadingLoop srv dataSetName (Suc fuel) dotCount =
    andThen (loadingPoll srv dataSetName (dotCount + 1)) (\<lambda>proceed.
      if proceed then loadingLoop srv dataSetName fuel (dotCount + 1) else result ())"

text \<open>\<open>numberOfRecords.toLocaleString()\<close>: a \<open>TypeError\<close> on \<open>null\<close>, here
  \<open>None\<close>; the empty string renders as itself.\<close>

definition localeString :: "host \<Rightarrow> int js \<Rightarrow> string option" where
  "localeString h numberOfRecords =
    (case numberOfRecords of
       Null \<Rightarrow> None
     | Blank \<Rightarrow> Some []
     | Val n \<Rightarrow> Some (toLocaleString h n))"

text \<open>Lines 1039-1046.\<close>

definition countRecords :: "host \<Rightarrow> server \<Rightarrow> DatasetConfig \<Rightarrow> int js io" where
  "countRecords h srv config =
    andThen
      (emit [ConsoleLog [],
             WriteSuccess (''Data loaded in '' @ toFixed h 1 (loadingDuration h) @ '' seconds'')])
      (\<lambda>_.
    andThen (getNumberOfJsonRecordsInDb srv (DatasetConfig.name config)) (\<lambda>numberOfRecords.
      case localeString h numberOfRecords of
        None \<Rightarrow> halt (Throw (typeError h ''numberOfRecords.toLocaleString''))
      | Some text \<Rightarrow>
          andThen (emit [WriteInfo (''Total records: '' @ text), ConsoleLog []])
            (\<lambda>_. result numberOfRecords)))"

text \<open>Step 12 up to the loop, lines 1048-1056.\<close>

definition buildIndex :: "server \<Rightarrow> DatasetConfig \<Rightarrow> unit io" where
  "buildIndex srv config =
    andThen
      (emit [WriteHeader ''Building Search Index'',
             WriteInfo ''Indexing dataset (this may take a moment)...''])
      (\<lambda>_.
    andThen (indexDataSet srv (DatasetConfig.name config)) (\<lambda>success.
      if \<not> success then
        andThen (emit [WriteError ''Failed to start indexing'']) (\<lambda>_. halt Return)
      else result ()))"

text \<open>The second polling loop, lines 1059-1073, modelled as the first.\<close>

definition indexingPoll :: "server \<Rightarrow> string \<Rightarrow> nat \<Rightarrow> bool io" where
  "indexingPoll srv dataSetName dotCount =
    andThen
      (emit [WriteProgress (''Indexing'' @ replicate (dotCount mod 4) (CHR ''.'') @ ''   '')])
      (\<lambda>_.
    andThen (getStatus srv dataSetName) (\<lambda>status'.
      result (if status' \<noteq> Null then systemStateOf status' \<noteq> Some Ready else False)))"

fun indexingLoop :: "server \<Rightarrow> string \<Rightarrow> nat \<Rightarrow> nat \<Rightarrow> unit io" where
  "indexingLoop srv dataSetName 0 dotCount = halt Polling"
| "indexingLoop srv dataSetName (Suc fuel) dotCount =
    andThen (indexingPoll srv dataSetName (dotCount + 1)) (\<lambda>proceed.
      if proceed then indexingLoop srv dataSetName fuel (dotCount + 1) else result ())"

text \<open>Lines 1075-1078.\<close>

definition indexBuilt :: "host \<Rightarrow> unit io" where
  "indexBuilt h =
    emit [ConsoleLog [],
          WriteSuccess (''Index built in '' @ toFixed h 1 (indexingDuration h) @ '' seconds''),
          ConsoleLog []]"

text \<open>Step 13, lines 1080-1112. The loop over the records fetches each document;
  \<open>rec[0]\<close> of an empty array or of the empty string prints as \<open>undefined\<close>, and
  \<open>rec[0]\<close> of \<open>null\<close> throws a \<open>TypeError\<close> on line 1109, after the three lines
  before it have been printed. \<open>res === null || !res.records || res.records.length === 0\<close>
  holds of \<open>null\<close>, of the empty string, which has no \<open>records\<close>, and of a result
  without records.\<close>

fun displayResults :: "host \<Rightarrow> server \<Rightarrow> string \<Rightarrow> nat \<Rightarrow> SearchRecord list \<Rightarrow> unit io" where
  "displayResults h srv dataSetName resultNum [] = result ()"
| "displayResults h srv dataSetName resultNum (item # rest) =
    andThen (getJson srv dataSetName [documentKey item]) (\<lambda>rec.
    andThen
      (emit [ConsoleLog (''Result '' @ showNat resultNum @ '':''),
             WriteInfo (''  Score: '' @ toFixed h 2 (score item)),
             WriteInfo (''  Document Key: '' @ showInt (documentKey item))])
      (\<lambda>_.
    if rec = Null then halt (Throw (typeError h ''rec[0]''))
    else
      andThen
        (emit [WriteInfo (''  Data: '' @ (case rec of Val (x # _) \<Rightarrow> x | _ \<Rightarrow> ''undefined'')),
               ConsoleLog []])
        (\<lambda>_. displayResults h srv dataSetName (resultNum + 1) rest)))"

definition testSearch :: "host \<Rightarrow> server \<Rightarrow> DatasetConfig \<Rightarrow> nat io" where
  "testSearch h srv config =
    andThen
      (emit [WriteHeader ''Running Test Search'',
             WriteInfo (''Search query: '' @ [CHR 0x22] @ testQuery config @ [CHR 0x22])])
      (\<lambda>_.
    andThen
      (search h srv
         (JObj [(''text'', JStr (testQuery config)),
                (''maxNumberOfRecordsToReturn'', JNum 5),
                (''sortBy'', JStr (case sortableFields config of [] \<Rightarrow> [] | x # _ \<Rightarrow> x)),
                (''enableFacets'', JBool False),
                (''enableBoost'', JBool False)])
         (DatasetConfig.name config))
      (\<lambda>res.
        case (case res of Val r \<Rightarrow> records r | _ \<Rightarrow> None) of
          None \<Rightarrow> andThen (emit [WriteError ''Search returned no results'']) (\<lambda>_. halt Return)
        | Some [] \<Rightarrow> andThen (emit [WriteError ''Search returned no results'']) (\<lambda>_. halt Return)
        | Some (item # rest) \<Rightarrow>
            andThen
              (emit [WriteSuccess (''Found '' @ showNat (length (item # rest)) @ '' results''),
                     ConsoleLog []])
              (\<lambda>_.
            andThen (displayResults h srv (DatasetConfig.name config) 1 (item # rest))
              (\<lambda>_. result (length (item # rest))))))"

text \<open>The final summary, lines 1114-1129; \<open>writeSummary\<close> prints the title as a
  header and one line per entry. \<open>numberOfRecords.toLocaleString()\<close> is evaluated
  again (a \<open>null\<close> has thrown on line 1045 already).\<close>

definition writeSummary :: "string \<Rightarrow> (string \<times> string) list \<Rightarrow> unit io" where
  "writeSummary title items =
    emit (WriteHeader title # map (\<lambda>(k, v). ConsoleLog (''  '' @ k @ '': '' @ v)) items)"

definition summarize :: "host \<Rightarrow> DatasetConfig \<Rightarrow> int js \<Rightarrow> nat \<Rightarrow> unit io" where
  "summarize h config numberOfRecords resultsCount =
    (case localeString h numberOfRecords of
       None \<Rightarrow> halt (Throw (typeError h ''numberOfRecords.toLocaleString''))
     | Some text \<Rightarrow>
    andThen
      (writeSummary ''Dataset Load Complete''
         [(''Dataset'', DatasetConfig.name config),
          (''Total Records'', text),
          (''Searchable Fields'', showNat (length (searchableFields config))),
          (''Word Indexing Fields'', showNat (length (wordIndexingFields config))),
          (''Filterable Fields'', showNat (length (filterableFields config))),
          (''Facetable Fields'', showNat (length (facetableFields config))),
          (''Sortable Fields'', showNat (length (sortableFields config))),
          (''Loading Time'', toFixed h 1 (loadingDuration h) @ ''s''),
          (''Indexing Time'', toFixed h 1 (indexingDuration h) @ ''s''),
          (''Test Query Results'', showNat resultsCount)])
      (\<lambda>_. emit [WriteSuccess ''Dataset is ready for use!'', ConsoleLog []]))"

text \<open>
  \<open>loadDataset\<close>: the parts in the order of the source. \<open>fuel\<close> bounds the polls the
  model follows in each of the two loops; \<open>config\<close> may be \<open>null\<close> (line 841).
\<close>

definition loadDataset ::
  "host \<Rightarrow> server \<Rightarrow> nat \<Rightarrow> string \<Rightarrow> DatasetConfig option \<Rightarrow> string \<Rightarrow> unit io" where
  "loadDataset h srv fuel datasetName config' uri =
    andThen (validate h datasetName config') (\<lambda>config.
    andThen (openDataset h srv config) (\<lambda>_.
    andThen (analyzeData h srv config) (\<lambda>_.
    andThen (configureFields srv config) (\<lambda>_.
    andThen (verifyFields srv config) (\<lambda>_.
    andThen (createFilters srv config) (\<lambda>_.
    andThen (loadData h srv config) (\<lambda>_.
    andThen (loadingLoop srv (DatasetConfig.name config) fuel 0) (\<lambda>_.
    andThen (countRecords h srv config) (\<lambda>numberOfRecords.
    andThen (buildIndex srv config) (\<lambda>_.
    andThen (indexingLoop srv (DatasetConfig.name config) fuel 0) (\<lambda>_.
    andThen (indexBuilt h) (\<lambda>_.
    andThen (testSearch h srv config) (\<lambda>resultsCount.
      summarize h config numberOfRecords resultsCount)))))))))))))"

section \<open>Authentication and the entry point (src/utils/auth.ts, src/index.ts)\<close>

definition setBearerToken :: "string \<Rightarrow> string \<Rightarrow> unit io" where
  "setBearerToken bearerToken uri w =
    (Inr (), w\<lparr>defaults := \<lparr> baseURL = uri, authorization = Some (''Bearer '' @ bearerToken) \<rparr>\<rparr>)"

text \<open>
  \<open>login\<close> (auth.ts, lines 26-63). A status that is not 2xx throws a plain \<open>Error\<close>,
  which the \<open>catch\<close> rethrows; a rejected request is an axios error, for which the
  \<open>catch\<close> prints two lines and throws a new \<open>Error\<close>. A 2xx response without a token
  (\<open>jwt && jwt.token\<close> is falsy for \<open>null\<close>, the empty string and an empty token)
  falls through to \<open>return null\<close>.
\<close>

definition login :: "host \<Rightarrow> server \<Rightarrow> string \<Rightarrow> string \<Rightarrow> string \<Rightarrow> string option io" where
  "login h srv userEmail userPassword uri =
    andThen (\<lambda>w. (Inr (), w\<lparr>defaults := (defaults w)\<lparr>baseURL := uri\<rparr>\<rparr>)) (\<lambda>_.
    andThen
      (send srv \<lparr> verb = POST, route = ''api'', endpoint = Login, dataSet = [],
                  content = Json (JObj [(''UserEmail'', JStr userEmail),
                                        (''UserPassWord'', JStr userPassword)]),
                  headers = [] \<rparr>)
      (\<lambda>r. case r of
         Resolved response \<Rightarrow>
           if is2xx response then
             (case map_js asJWT (data response) of
                Val jwt \<Rightarrow>
                  if token jwt \<noteq> [] then
                    andThen
                      (\<lambda>w. (Inr (), w\<lparr>defaults := (defaults w)
                         \<lparr>authorization := Some (''Bearer '' @ token jwt)\<rparr>\<rparr>))
                      (\<lambda>_. result (Some (token jwt)))
                  else result None
              | _ \<Rightarrow> result None)
           else
             andThen
               (emit [ConsoleLog (''Error: '' @ showInt (status response)),
                      ConsoleLog (''Response: '' @ stringify h (data response))])
               (\<lambda>_. halt (Throw (''Login failed: '' @ stringify h (data response))))
       | Rejected error \<Rightarrow>
           andThen
             (emit [ConsoleLog (''Error: '' @ (case responseStatus error of
                                                None \<Rightarrow> ''undefined''
                                              | Some c \<Rightarrow> showInt c)),
                    ConsoleLog (''Response: '' @ (case responseData error of
                                                   None \<Rightarrow> ''undefined''
                                                 | Some d \<Rightarrow> [CHR 0x22] @ d @ [CHR 0x22]))])
             (\<lambda>_. halt (Throw (''Login failed: '' @ message error)))))"

text \<open>
  What \<open>main\<close> reads: the \<open>--dataset\<close> option (\<open>None\<close> when absent), the answer of the
  interactive menu (\<open>None\<close> for Exit), and the four environment variables, empty when
  unset.
\<close>

record invocation =
  optDataset :: "string option"
  menuAnswer :: "string option"
  API_URI :: string
  BEARER_TOKEN :: string
  USER_EMAIL :: string
  USER_PASSWORD :: string

definition showInteractiveMenu :: "invocation \<Rightarrow> string option io" where
  "showInteractiveMenu args =
    andThen (emit [WriteHeader ''Dataset Selection'', ConsoleLog []])
      (\<lambda>_. result (menuAnswer args))"

text \<open>The body of the \<open>try\<close> in \<open>main\<close> (index.ts, lines 69-123). \<open>!dataset\<close> holds
  for an absent option and for the empty string.\<close>

definition mainBody :: "host \<Rightarrow> server \<Rightarrow> nat \<Rightarrow> invocation \<Rightarrow> unit io" where
  "mainBody h srv fuel args =
    (let uri = (if API_URI args = [] then ''https://localhost:5001/'' else API_URI args);
         pick = andThen (showInteractiveMenu args) (\<lambda>answer.
                  case answer of
                    None \<Rightarrow> andThen (emit [WriteWarning ''No dataset selected. Exiting.''])
                              (\<lambda>_. halt Return)
                  | Some d \<Rightarrow> result d)
     in
     andThen
       (case optDataset args of
          Some d \<Rightarrow> if d \<noteq> [] then result d else pick
        | None \<Rightarrow> pick)
       (\<lambda>dataset.
          case getConfig (toLowerCase h) dataset of
            None \<Rightarrow>
              andThen
                (emit [WriteError (''Unknown dataset: '' @ dataset),
                       WriteInfo (''Available datasets: '' @ join '', '' getAvailableDatasets)])
                (\<lambda>_. halt Return)
          | Some config \<Rightarrow>
              andThen
                (if BEARER_TOKEN args \<noteq> [] then setBearerToken (BEARER_TOKEN args) uri
                 else if USER_EMAIL args \<noteq> [] \<and> USER_PASSWORD args \<noteq> [] then
                   andThen (emit [WriteInfo ''Authenticating with email and password...''])
                     (\<lambda>_.
                   andThen (login h srv (USER_EMAIL args) (USER_PASSWORD args) uri) (\<lambda>token'.
                     if token' = None then
                       andThen (emit [WriteError ''Login failed'']) (\<lambda>_. halt Return)
                     else emit [WriteSuccess ''Authentication successful'']))
                 else
                   andThen
                     (emit [WriteError ''No authentication credentials provided'',
                            WriteInfo ''Please set BEARER_TOKEN or USER_EMAIL and USER_PASSWORD in .env.local''])
                     (\<lambda>_. halt Return))
                (\<lambda>_. loadDataset h srv fuel dataset (Some config) uri)))"

text \<open>\<open>main\<close> (index.ts, lines 52-131): the \<open>catch\<close> around the body turns a thrown error
  into a message and \<open>process.exit(-1)\<close>.\<close>

definition main :: "host \<Rightarrow> server \<Rightarrow> nat \<Rightarrow> invocation \<Rightarrow> unit io" where
  "main h srv fuel args w =
    (case mainBody h srv fuel args w of
       (Inl (Throw m), w') \<Rightarrow>
         andThen (emit [WriteError (''Fatal error: '' @ m)]) (\<lambda>_. halt (Exit (-1))) w'
     | other \<Rightarrow> other)"

section \<open>Vocabulary of the statements\<close>

text \<open>A reply is accepted when the request resolved with a 2xx status: the test every
  call site applies.\<close>

definition accepted :: "reply \<Rightarrow> bool" where
  "accepted r = (case r of Resolved response \<Rightarrow> is2xx response | Rejected _ \<Rightarrow> False)"

text \<open>\<open>response.data\<close> of a resolved reply; a rejected request has no response, and
  \<open>dataOf\<close> is \<open>Null\<close> there.\<close>

definition dataOf :: "reply \<Rightarrow> payload js" where
  "dataOf r = (case r of Resolved response \<Rightarrow> data response | Rejected _ \<Rightarrow> Null)"

text \<open>What a call returns that returns \<open>response.data\<close> of an accepted reply and
  \<open>null\<close> otherwise.\<close>

definition returned :: "reply \<Rightarrow> payload js" where
  "returned r = (if accepted r then dataOf r else Null)"

text \<open>
  What a status fetch observes in a reply: \<open>None\<close> when the fetch fails (another
  status, or a rejected request); for an accepted reply the status it returns, which is
  \<open>Null\<close>, the empty string, or a status with its system state.
\<close>

definition fetched :: "reply \<Rightarrow> SystemState js option" where
  "fetched r =
    (if accepted r then Some (map_js (\<lambda>p. systemState (asSystemStatus p)) (dataOf r))
     else None)"

text \<open>An observation that keeps the second loop polling: an accepted reply whose
  status is not \<open>null\<close> and whose state is not \<open>Ready\<close>.\<close>

definition going :: "reply \<Rightarrow> bool" where
  "going r \<longleftrightarrow>
     fetched r \<noteq> None \<and> fetched r \<noteq> Some Null \<and> fetched r \<noteq> Some (Val Ready)"


text \<open>
  The phases of a run and what each waits for: \<open>precedes e\<close> is the request whose
  success the request \<open>e\<close> comes after (Open, Analyze, the five set calls of Configure
  in their order, Load, Index, Search). The other requests belong to no phase.
\<close>

fun precedes :: "endpoint \<Rightarrow> endpoint option" where
  "precedes AnalyzeString = Some CreateOrOpen"
| "precedes SetSearchableFields = Some AnalyzeString"
| "precedes SetFilterableFields = Some SetSearchableFields"
| "precedes SetFacetableFields = Some SetFilterableFields"
| "precedes SetSortableFields = Some SetFacetableFields"
| "precedes SetWordIndexingFields = Some SetSortableFields"
| "precedes LoadStream = Some SetWordIndexingFields"
| "precedes IndexDataSet = Some LoadStream"
| "precedes Search = Some IndexDataSet"
| "precedes _ = None"

text \<open>
  \<open>inOrder srv k tr\<close>: in the requests \<open>tr\<close> of a run that began after \<open>k\<close> earlier
  requests (so that the reply to \<open>tr ! j\<close> is \<open>srv (k + j)\<close>), every request of a phase
  comes after an accepted request of the phase before it.
\<close>

definition inOrder :: "server \<Rightarrow> nat \<Rightarrow> request list \<Rightarrow> bool" where
  "inOrder srv k tr \<longleftrightarrow>
    (\<forall>i<length tr.
       case precedes (endpoint (tr ! i)) of
         None \<Rightarrow> True
       | Some e \<Rightarrow> \<exists>j<i. endpoint (tr ! j) = e \<and> accepted (srv (k + j)))"

text \<open>The run of \<open>loadDataset\<close> up to the end of Step 9, where the five set calls have
  succeeded; it returns the descriptor.\<close>

definition throughStep9 ::
  "host \<Rightarrow> server \<Rightarrow> string \<Rightarrow> DatasetConfig option \<Rightarrow> DatasetConfig io" where
  "throughStep9 h srv datasetName config' =
    andThen (validate h datasetName config') (\<lambda>config.
    andThen (openDataset h srv config) (\<lambda>_.
    andThen (analyzeData h srv config) (\<lambda>_.
    andThen (configureFields srv config) (\<lambda>_. result config))))"

text \<open>The spec's words for the body of the searchable-fields call: each field an
  ordered two-element tuple, the name first and the weight code second.\<close>

definition positionalTuples :: "SearchableField list \<Rightarrow> json" where
  "positionalTuples fields' =
    JArr (map (\<lambda>f. JArr [JStr (SearchableField.name f), JNum (of_int (weight f))]) fields')"

text \<open>The JSON of a value of the declared interface \<open>CombinedFilterProxy\<close>.\<close>

definition CombinedFilterProxy_json :: "CombinedFilterProxy \<Rightarrow> json" where
  "CombinedFilterProxy_json c =
    JObj [(''filter1'', FilterProxy_json (filter1 c)),
          (''filter2'', FilterProxy_json (filter2 c)),
          (''useAnd'', JBool (useAnd c))]"

text \<open>Weakest preconditions, for the proofs: \<open>wp m Q w\<close> holds when \<open>Q\<close> holds of the
  outcome and the world in which \<open>m\<close> ends from \<open>w\<close>.\<close>

definition wp :: "'a io \<Rightarrow> ((stop + 'a) \<Rightarrow> world \<Rightarrow> bool) \<Rightarrow> world \<Rightarrow> bool" where
  "wp m Q w = (case m w of (r, w') \<Rightarrow> Q r w')"

text \<open>
  The invariant of the sequencing proof, on the requests \<open>tr\<close> sent so far: the run
  began after \<open>k\<close> of them, its own requests are in order, and each request of \<open>E\<close>
  has been sent and accepted.
\<close>

definition good :: "server \<Rightarrow> nat \<Rightarrow> endpoint set \<Rightarrow> request list \<Rightarrow> bool" where
  "good srv k E tr \<longleftrightarrow>
    k \<le> length tr \<and> inOrder srv k (drop k tr) \<and>
    (\<forall>e\<in>E. \<exists>j<length tr - k. endpoint (drop k tr ! j) = e \<and> accepted (srv (k + j)))"

text \<open>
  \<open>extends srv n seen rs E\<close>: the requests \<open>rs\<close>, sent after \<open>n\<close> others when the
  requests of \<open>seen\<close> have been accepted, each come after the request they wait for,
  and the requests of \<open>E\<close> have been accepted at the end.
\<close>

fun extends :: "server \<Rightarrow> nat \<Rightarrow> endpoint set \<Rightarrow> request list \<Rightarrow> endpoint set \<Rightarrow> bool" where
  "extends srv n seen [] E \<longleftrightarrow> E \<subseteq> seen"
| "extends srv n seen (r # rs) E \<longleftrightarrow>
     (\<forall>e. precedes (endpoint r) = Some e \<longrightarrow> e \<in> seen) \<and>
     extends srv (Suc n) (if accepted (srv n) then insert (endpoint r) seen else seen) rs E"

section \<open>Example values\<close>

text \<open>Lowercasing restricted to the ASCII letters, for the examples.\<close>

definition asciiLower :: "char \<Rightarrow> char" where
  "asciiLower c =
    (case map_of (zip ''ABCDEFGHIJKLMNOPQRSTUVWXYZ'' ''abcdefghijklmnopqrstuvwxyz'') c of
       Some l \<Rightarrow> l
     | None \<Rightarrow> c)"

definition noLicense :: LicenseInfo where
  "noLicense =
    \<lparr> description = None, documentLimit = 0, documentLimitExceeded = False,
      expirationDate = [], licensed = False, licensedTo = None, licenseFileName = None,
      licenseType = None, validLicense = False \<rparr>"

definition statusIn :: "SystemState \<Rightarrow> SystemStatus" where
  "statusIn st =
    \<lparr> documentCount = 0, errorMessage = None, invalidArgument = False,
      invalidDataSetName = False, invalidState = False, licenseInfo = noLicense,
      reIndexRequired = False, searchCounter = 0, secondsToIndex = 0, systemState = st,
      timeOfInstanceCreation = [], timeOfLastIndexBuild = [], tooLongClientText = False,
      tooLongSearchText = False, unknownConfigurationError = False, version = None \<rparr>"

definition proxy :: "string \<Rightarrow> FilterProxy" where
  "proxy i = \<lparr> id' = i, fieldName = ''speed'' \<rparr>"

definition body :: "SystemState \<Rightarrow> string \<Rightarrow> payload" where
  "body st i =
    \<lparr> asSystemStatus = statusIn st, asStrings = [''{}''], asFilterProxy = proxy i,
      asBoostProxy = \<lparr> filterProxy = proxy i, boostStrength = BoostStrength.High \<rparr>,
      asNumber = 1,
      asResult = \<lparr> records = Some [\<lparr> documentKey = 7, score = 1 \<rparr>], facets = None,
                   didTimeOut = False, truncationIndex = 0, truncationScore = 0 \<rparr>,
      asJWT = \<lparr> token = ''t'' \<rparr> \<rparr>"

definition replies :: "int \<Rightarrow> SystemState \<Rightarrow> reply" where
  "replies c st = Resolved \<lparr> status = c, statusText = [], data = Val (body st ''f'') \<rparr>"

text \<open>A reply with status 200 whose body is the JSON text \<open>null\<close>, and one whose body
  is empty.\<close>

definition nullReply :: reply where
  "nullReply = Resolved \<lparr> status = 200, statusText = ''OK'', data = Null \<rparr>"

definition emptyReply :: reply where
  "emptyReply = Resolved \<lparr> status = 200, statusText = ''OK'', data = Blank \<rparr>"

definition refused :: reply where
  "refused = Rejected \<lparr> message = ''refused'', responseStatus = None, responseData = None \<rparr>"

definition exampleHost :: host where
  "exampleHost =
    \<lparr> readFile = (\<lambda>p. if p = ''data/tmdb_top10k.json'' \<or> p = ''data/pokedex.json''
                       then Some ''[]'' else None),
      resolve = (\<lambda>p. ''/app/'' @ p),
      toLowerCase = map asciiLower,
      toFixed = (\<lambda>_ _. ''0''),
      toLocaleString = showInt,
      noSuchFile = (\<lambda>p. \<lparr> message = ''ENOENT'', responseStatus = None, responseData = None \<rparr>),
      inspect = message,
      typeError = (\<lambda>e. e @ '' failed''),
      stringify = (\<lambda>_. ''{}''),
      loadingDuration = 0,
      indexingDuration = 0 \<rparr>"

definition startWorld :: world where
  "startWorld = \<lparr> sent = [], console = [], defaults = \<lparr> baseURL = [], authorization = None \<rparr> \<rparr>"

text \<open>The dataset name \<open>main\<close> ends up with: the \<open>--dataset\<close> option when it is
  given and not empty, the answer of the menu otherwise.\<close>

definition selected :: "invocation \<Rightarrow> string option" where
  "selected args =
    (case optDataset args of
       Some d \<Rightarrow> if d \<noteq> [] then Some d else menuAnswer args
     | None \<Rightarrow> menuAnswer args)"

text \<open>The body the comment above \<open>setSearchableFields\<close> rules out: objects with the
  properties \<open>name\<close> and \<open>weight\<close>.\<close>

definition nameWeightObjects :: "SearchableField list \<Rightarrow> json" where
  "nameWeightObjects fields' =
    JArr (map (\<lambda>f. JObj [(''name'', JStr (SearchableField.name f)),
                           (''weight'', JNum (of_int (weight f)))]) fields')"

definition movies :: invocation where
  "movies = \<lparr> optDataset = Some ''movies'', menuAnswer = None, API_URI = [],
              BEARER_TOKEN = ''secret'', USER_EMAIL = [], USER_PASSWORD = [] \<rparr>"

section \<open>Lemmas on single calls\<close>

lemmas io_defs = andThen_def emit_def send_def result_def halt_def

text \<open>The source compares the numeric values of the states and of the weights; the
  values of distinct members differ, so the model compares the members.\<close>

lemma SystemState_code_inj: "SystemState_code a = SystemState_code b \<longleftrightarrow> a = b"
  by (cases a; cases b) simp_all

lemma Weight_code_inj: "Weight_code a = Weight_code b \<longleftrightarrow> a = b"
  by (cases a; cases b) simp_all

lemma accepted_replies [simp]:
  "accepted (replies 200 st)" "\<not> accepted (replies 500 st)" "\<not> accepted refused"
  "accepted nullReply" "accepted emptyReply"
  by (simp_all add: accepted_def replies_def refused_def nullReply_def emptyReply_def is2xx_def)

lemma dataOf_replies [simp]:
  "dataOf (replies c st) = Val (body st ''f'')" "dataOf nullReply = Null"
  "dataOf emptyReply = Blank"
  by (simp_all add: dataOf_def replies_def nullReply_def emptyReply_def)

lemma fetched_replies [simp]:
  "fetched (replies 200 st) = Some (Val st)" "fetched (replies 500 st) = None"
  "fetched refused = None" "fetched nullReply = Some Null" "fetched emptyReply = Some Blank"
  by (simp_all add: fetched_def body_def statusIn_def)

lemma getStatus_result:
  "fst (getStatus srv n w) =
     (if accepted (srv (length (sent w)))
      then Inr (map_js asSystemStatus (dataOf (srv (length (sent w)))))
      else Inl (Exit (-1)))"
  by (simp add: getStatus_def accepted_def dataOf_def io_defs split: reply.splits)

lemma loadingPoll_result:
  "fst (loadingPoll srv n d w) =
     (if accepted (srv (length (sent w)))
      then Inr (fetched (srv (length (sent w))) = Some (Val Loading))
      else Inl (Exit (-1)))"
proof (cases "srv (length (sent w))")
  case (Resolved response)
  then show ?thesis
    by (cases "data response")
       (simp_all add: loadingPoll_def getStatus_def accepted_def dataOf_def fetched_def
          systemStateOf_def io_defs)
next
  case (Rejected error)
  then show ?thesis
    by (simp add: loadingPoll_def getStatus_def accepted_def io_defs)
qed

lemma indexingPoll_result:
  "fst (indexingPoll srv n d w) =
     (if accepted (srv (length (sent w)))
      then Inr (going (srv (length (sent w))))
      else Inl (Exit (-1)))"
proof (cases "srv (length (sent w))")
  case (Resolved response)
  then show ?thesis
    by (cases "data response")
       (simp_all add: indexingPoll_def getStatus_def accepted_def dataOf_def fetched_def
          going_def systemStateOf_def io_defs)
next
  case (Rejected error)
  then show ?thesis
    by (simp add: indexingPoll_def getStatus_def accepted_def io_defs)
qed

lemma poll_sent:
  "length (sent (snd (loadingPoll srv n d w))) = Suc (length (sent w))"
  "length (sent (snd (indexingPoll srv n d w))) = Suc (length (sent w))"
  by (auto simp: loadingPoll_def indexingPoll_def getStatus_def io_defs split: reply.splits)

lemma fetched_None: "fetched r = None \<longleftrightarrow> \<not> accepted r"
  by (simp add: fetched_def)

section \<open>The wait for the load (lines 1021-1037)\<close>

lemma loadingPoll_ok:
  "fetched (srv (length (sent w))) = Some v \<Longrightarrow>
   \<exists>w'. loadingPoll srv n d w = (Inr (v = Val Loading), w')
        \<and> length (sent w') = Suc (length (sent w))"
  using loadingPoll_result[of srv n d w] poll_sent(1)[of srv n d w]
  by (cases "loadingPoll srv n d w") (auto simp: fetched_None[symmetric])

lemma loadingPoll_fail:
  "fetched (srv (length (sent w))) = None \<Longrightarrow>
   \<exists>w'. loadingPoll srv n d w = (Inl (Exit (-1)), w')
        \<and> length (sent w') = Suc (length (sent w))"
  using loadingPoll_result[of srv n d w] poll_sent(1)[of srv n d w]
  by (cases "loadingPoll srv n d w") (auto simp: fetched_None)

lemma loadingLoop_polling:
  "(fst (loadingLoop srv n fuel d w) = Inl Polling)
     = (\<forall>i<fuel. fetched (srv (length (sent w) + i)) = Some (Val Loading))"
proof (induction fuel arbitrary: d w)
  case 0
  show ?case by (simp add: halt_def)
next
  case (Suc fuel)
  show ?case
  proof (cases "fetched (srv (length (sent w)))")
    case None
    from loadingPoll_fail[where srv=srv and w=w and n=n and d="d+1", OF None] obtain w' where
      p: "loadingPoll srv n (d + 1) w = (Inl (Exit (-1)), w')" by blast
    have "\<not> (\<forall>i<Suc fuel. fetched (srv (length (sent w) + i)) = Some (Val Loading))"
      using None by (auto intro: exI[of _ 0])
    then show ?thesis using p by (simp add: andThen_def)
  next
    case (Some v)
    from loadingPoll_ok[where srv=srv and w=w and n=n and d="d+1", OF Some] obtain w' where
      p: "loadingPoll srv n (d + 1) w = (Inr (v = Val Loading), w')"
      and l: "length (sent w') = Suc (length (sent w))" by blast
    show ?thesis
    proof (cases "v = Val Loading")
      case True
      have "(\<forall>i<Suc fuel. fetched (srv (length (sent w) + i)) = Some (Val Loading))
          = (\<forall>i<fuel. fetched (srv (length (sent w') + i)) = Some (Val Loading))"
        using Some True l by (auto simp: less_Suc_eq_0_disj)
      then show ?thesis using p True Suc.IH[of "d + 1" w'] by (simp add: andThen_def)
    next
      case False
      have "\<not> (\<forall>i<Suc fuel. fetched (srv (length (sent w) + i)) = Some (Val Loading))"
        using Some False by (auto intro: exI[of _ 0])
      then show ?thesis using p False by (simp add: andThen_def result_def)
    qed
  qed
qed

lemma loadingLoop_stops:
  "(\<forall>i<j. fetched (srv (length (sent w) + i)) = Some (Val Loading)) \<Longrightarrow>
   fetched (srv (length (sent w) + j)) \<noteq> Some (Val Loading) \<Longrightarrow> j < fuel \<Longrightarrow>
   fst (loadingLoop srv n fuel d w) =
      (case fetched (srv (length (sent w) + j)) of None \<Rightarrow> Inl (Exit (-1)) | Some v \<Rightarrow> Inr ())
   \<and> length (sent (snd (loadingLoop srv n fuel d w))) = length (sent w) + j + 1"
proof (induction j arbitrary: fuel d w)
  case 0
  then obtain f where fuel: "fuel = Suc f" by (cases fuel) auto
  show ?case
  proof (cases "fetched (srv (length (sent w)))")
    case None
    from loadingPoll_fail[where srv=srv and w=w and n=n and d="d+1", OF None] obtain w' where
      "loadingPoll srv n (d + 1) w = (Inl (Exit (-1)), w')"
      "length (sent w') = Suc (length (sent w))"
      by blast
    then show ?thesis using None fuel by (simp add: andThen_def)
  next
    case (Some v)
    from loadingPoll_ok[where srv=srv and w=w and n=n and d="d+1", OF Some] obtain w' where
      "loadingPoll srv n (d + 1) w = (Inr (v = Val Loading), w')"
      "length (sent w') = Suc (length (sent w))"
      by blast
    moreover have "v \<noteq> Val Loading" using 0 Some by simp
    ultimately show ?thesis using Some fuel by (simp add: andThen_def result_def)
  qed
next
  case (Suc j)
  then obtain f where fuel: "fuel = Suc f" and jf: "j < f" by (cases fuel) auto
  have first: "fetched (srv (length (sent w))) = Some (Val Loading)" using Suc.prems(1) by force
  from loadingPoll_ok[where srv=srv and w=w and n=n and d="d+1", OF first] obtain w' where
    p: "loadingPoll srv n (d + 1) w = (Inr True, w')"
    and l: "length (sent w') = Suc (length (sent w))"
    by auto
  have a: "\<forall>i<j. fetched (srv (length (sent w') + i)) = Some (Val Loading)"
    using Suc.prems(1) l by (auto dest: spec[of _ "Suc _"])
  have b: "fetched (srv (length (sent w') + j)) \<noteq> Some (Val Loading)"
    using Suc.prems(2) l by simp
  from Suc.IH[OF a b jf, of "d + 1"] show ?case
    using p l fuel by (simp add: andThen_def)
qed

text \<open>
  Claim C5. The wait-for-load loop is still polling after \<open>fuel\<close> polls exactly when
  every one of them observed the state \<open>Loading\<close>: it never exits while it observes
  \<open>Loading\<close>, and it exits as soon as it observes anything else. At the first poll
  \<open>j\<close> that does not observe \<open>Loading\<close> the loop ends, having sent exactly \<open>j + 1\<close>
  status requests: normally when the state is another one (\<open>Loaded\<close>, \<open>Ready\<close>,
  \<open>Error\<close> or any other) or the status carries no state (it is \<open>null\<close> or the empty
  string), by \<open>process.exit(-1)\<close> when the status fetch failed.
\<close>

theorem wait_for_load_exit:
  "(fst (loadingLoop srv n fuel d w) = Inl Polling
      \<longleftrightarrow> (\<forall>i<fuel. fetched (srv (length (sent w) + i)) = Some (Val Loading)))
   \<and> ((\<forall>i<j. fetched (srv (length (sent w) + i)) = Some (Val Loading))
        \<and> fetched (srv (length (sent w) + j)) \<noteq> Some (Val Loading) \<and> j < fuel \<longrightarrow>
      fst (loadingLoop srv n fuel d w)
        = (case fetched (srv (length (sent w) + j)) of
             None \<Rightarrow> Inl (Exit (-1)) | Some v \<Rightarrow> Inr ())
      \<and> length (sent (snd (loadingLoop srv n fuel d w))) = length (sent w) + j + 1)"
  using loadingLoop_polling loadingLoop_stops by blast

theorem wait_for_load_exit_witness:
  "fst (loadingLoop (\<lambda>i. if i < 2 then replies 200 Loading else replies 200 Error)
         ''tmdb'' 2 0 startWorld) = Inl Polling
   \<and> fst (loadingLoop (\<lambda>i. if i < 2 then replies 200 Loading else replies 200 Error)
         ''tmdb'' 5 0 startWorld) = Inr ()
   \<and> length (sent (snd (loadingLoop
         (\<lambda>i. if i < 2 then replies 200 Loading else replies 200 Error)
         ''tmdb'' 5 0 startWorld))) = 3"
  using wait_for_load_exit[of "\<lambda>i. if i < 2 then replies 200 Loading else replies 200 Error"
          "''tmdb''" 2 0 startWorld 2]
        wait_for_load_exit[of "\<lambda>i. if i < 2 then replies 200 Loading else replies 200 Error"
          "''tmdb''" 5 0 startWorld 2]
  by (simp add: startWorld_def)

section \<open>The wait for the index (lines 1059-1073)\<close>

lemma going_accepted: "going r \<Longrightarrow> accepted r"
  by (simp add: going_def fetched_None)

lemma indexingPoll_step:
  "\<exists>w'. indexingPoll srv n d w =
          (if accepted (srv (length (sent w))) then Inr (going (srv (length (sent w))))
           else Inl (Exit (-1)), w')
        \<and> length (sent w') = Suc (length (sent w))"
  using indexingPoll_result[of srv n d w] poll_sent(2)[of srv n d w]
  by (cases "indexingPoll srv n d w") auto

lemma indexingLoop_polling:
  "(fst (indexingLoop srv n fuel d w) = Inl Polling)
     = (\<forall>i<fuel. going (srv (length (sent w) + i)))"
proof (induction fuel arbitrary: d w)
  case 0
  show ?case by (simp add: halt_def)
next
  case (Suc fuel)
  from indexingPoll_step[of srv n "d + 1" w] obtain w' where
    p: "indexingPoll srv n (d + 1) w =
          (if accepted (srv (length (sent w))) then Inr (going (srv (length (sent w))))
           else Inl (Exit (-1)), w')"
    and l: "length (sent w') = Suc (length (sent w))" by blast
  show ?case
  proof (cases "going (srv (length (sent w)))")
    case True
    have "(\<forall>i<Suc fuel. going (srv (length (sent w) + i)))
        = (\<forall>i<fuel. going (srv (length (sent w') + i)))"
      using True l by (auto simp: less_Suc_eq_0_disj)
    then show ?thesis
      using p True going_accepted[OF True] Suc.IH[of "d + 1" w'] by (simp add: andThen_def)
  next
    case False
    have "\<not> (\<forall>i<Suc fuel. going (srv (length (sent w) + i)))"
      using False by (auto intro: exI[of _ 0])
    then show ?thesis using p False by (simp add: andThen_def result_def)
  qed
qed

lemma indexingLoop_stops:
  "(\<forall>i<j. going (srv (length (sent w) + i))) \<Longrightarrow>
   \<not> going (srv (length (sent w) + j)) \<Longrightarrow> j < fuel \<Longrightarrow>
   fst (indexingLoop srv n fuel d w) =
      (case fetched (srv (length (sent w) + j)) of None \<Rightarrow> Inl (Exit (-1)) | Some v \<Rightarrow> Inr ())
   \<and> length (sent (snd (indexingLoop srv n fuel d w))) = length (sent w) + j + 1"
proof (induction j arbitrary: fuel d w)
  case 0
  then obtain f where fuel: "fuel = Suc f" by (cases fuel) auto
  from indexingPoll_step[of srv n "d + 1" w] obtain w' where
    p: "indexingPoll srv n (d + 1) w =
          (if accepted (srv (length (sent w))) then Inr (going (srv (length (sent w))))
           else Inl (Exit (-1)), w')"
    and l: "length (sent w') = Suc (length (sent w))" by blast
  have ng: "\<not> going (srv (length (sent w)))" using 0 by simp
  show ?case
  proof (cases "fetched (srv (length (sent w)))")
    case None
    then have "\<not> accepted (srv (length (sent w)))" by (simp add: fetched_None)
    then show ?thesis using None p l fuel by (simp add: andThen_def)
  next
    case (Some v)
    then have "accepted (srv (length (sent w)))" using fetched_None[of "srv (length (sent w))"] by simp
    then show ?thesis using Some p l fuel ng by (simp add: andThen_def result_def)
  qed
next
  case (Suc j)
  then obtain f where fuel: "fuel = Suc f" and jf: "j < f" by (cases fuel) auto
  have g: "going (srv (length (sent w)))" using Suc.prems(1) by force
  from indexingPoll_step[of srv n "d + 1" w] g going_accepted[OF g] obtain w' where
    p: "indexingPoll srv n (d + 1) w = (Inr True, w')" and l: "length (sent w') = Suc (length (sent w))"
    by auto
  have a: "\<forall>i<j. going (srv (length (sent w') + i))"
    using Suc.prems(1) l by (auto dest: spec[of _ "Suc _"])
  have b: "\<not> going (srv (length (sent w') + j))"
    using Suc.prems(2) l by simp
  from Suc.IH[OF a b jf, of "d + 1"] show ?case
    using p l fuel by (simp add: andThen_def)
qed

text \<open>
  Claim C1, as the code has it. The wait-for-index loop is still polling after \<open>fuel\<close>
  polls exactly when none of them observed \<open>Ready\<close> and none of its status fetches
  failed, a fetch failing when its request is not accepted or the status it returns is
  \<open>null\<close>. At the first poll \<open>j\<close> that observes \<open>Ready\<close> or whose fetch fails the
  loop ends, having sent exactly \<open>j + 1\<close> status requests (by \<open>process.exit(-1)\<close>
  when the request was not accepted, normally otherwise). An accepted status in any
  other state, \<open>Error\<close> included, keeps the loop polling.
\<close>

theorem wait_for_index_exit:
  "(fst (indexingLoop srv n fuel d w) = Inl Polling
      \<longleftrightarrow> (\<forall>i<fuel. going (srv (length (sent w) + i))))
   \<and> ((\<forall>i<j. going (srv (length (sent w) + i)))
        \<and> \<not> going (srv (length (sent w) + j)) \<and> j < fuel \<longrightarrow>
      fst (indexingLoop srv n fuel d w)
        = (case fetched (srv (length (sent w) + j)) of
             None \<Rightarrow> Inl (Exit (-1)) | Some v \<Rightarrow> Inr ())
      \<and> length (sent (snd (indexingLoop srv n fuel d w))) = length (sent w) + j + 1)
   \<and> (going r \<longleftrightarrow>
        \<not> (fetched r = Some (Val Ready) \<or> fetched r = Some Null \<or> fetched r = None))
   \<and> (fetched r = Some (Val st) \<and> st \<noteq> Ready \<longrightarrow> going r)"
  using indexingLoop_polling[of srv n fuel d w] indexingLoop_stops[of j srv w fuel n d]
  by (auto simp: going_def)

theorem wait_for_index_exit_witness:
  "fst (indexingLoop (\<lambda>i. if i < 2 then replies 200 Error else replies 200 Ready)
         ''tmdb'' 2 0 startWorld) = Inl Polling
   \<and> fst (indexingLoop (\<lambda>i. if i < 2 then replies 200 Error else replies 200 Ready)
         ''tmdb'' 5 0 startWorld) = Inr ()
   \<and> length (sent (snd (indexingLoop
         (\<lambda>i. if i < 2 then replies 200 Error else replies 200 Ready)
         ''tmdb'' 5 0 startWorld))) = 3
   \<and> fst (indexingLoop (\<lambda>i. if i < 2 then replies 200 Error else nullReply)
         ''tmdb'' 5 0 startWorld) = Inr ()
   \<and> fst (indexingLoop (\<lambda>i. if i < 2 then replies 200 Error else refused)
         ''tmdb'' 5 0 startWorld) = Inl (Exit (-1))
   \<and> going (replies 200 Error)"
  using wait_for_index_exit[of "\<lambda>i. if i < 2 then replies 200 Error else replies 200 Ready"
          "''tmdb''" 2 0 startWorld 2 "replies 200 Error" Error]
        wait_for_index_exit[of "\<lambda>i. if i < 2 then replies 200 Error else replies 200 Ready"
          "''tmdb''" 5 0 startWorld 2 "replies 200 Error" Error]
        wait_for_index_exit[of "\<lambda>i. if i < 2 then replies 200 Error else nullReply"
          "''tmdb''" 5 0 startWorld 2 "replies 200 Error" Error]
        wait_for_index_exit[of "\<lambda>i. if i < 2 then replies 200 Error else refused"
          "''tmdb''" 5 0 startWorld 2 "replies 200 Error" Error]
  by (simp add: startWorld_def going_def)

text \<open>
  Against claim C1 as stated (the \<open>Error\<close> state exits the loop): a service that
  answers every status request with the state \<open>Error\<close> is polled three times in three
  polls, and the loop is still running.
\<close>

theorem error_state_keeps_polling:
  "fst (indexingLoop (\<lambda>i. replies 200 Error) ''tmdb'' 3 0 startWorld) = Inl Polling
   \<and> length (sent (snd (indexingLoop (\<lambda>i. replies 200 Error) ''tmdb'' 3 0 startWorld))) = 3"
  by code_simp

section \<open>getStatus and the null branches (lines 617-631, 1030-1035, 1066-1071)\<close>

text \<open>
  Claim C10, as the code has it. \<open>getStatus\<close> returns \<open>null\<close> exactly when the reply
  is accepted and its body is \<open>null\<close>. On a reply that is not accepted (another
  status, or a rejected request) it ends the process with exit code -1 instead of
  returning, and so does the pass through either loop body that called it. On an
  accepted reply it returns the body as it is, and the pass through the loop body
  computes \<open>proceed\<close> from it: \<open>false\<close> in the \<open>else\<close> branch when it is \<open>null\<close>,
  the comparison of its state otherwise. So the \<open>else\<close> branches are reached after an
  accepted reply with a \<open>null\<close> body and never after a failed request.
\<close>

theorem getStatus_null_only_for_null_body:
  "(fst (getStatus srv n w) = Inr Null \<longleftrightarrow>
      accepted (srv (length (sent w))) \<and> dataOf (srv (length (sent w))) = Null)
   \<and> (\<not> accepted (srv (length (sent w))) \<longrightarrow> fst (getStatus srv n w) = Inl (Exit (-1)))
   \<and> (\<not> accepted (srv (length (sent w))) \<longrightarrow> fst (loadingPoll srv n d w) = Inl (Exit (-1)))
   \<and> (\<not> accepted (srv (length (sent w))) \<longrightarrow> fst (indexingPoll srv n d w) = Inl (Exit (-1)))
   \<and> (accepted (srv (length (sent w))) \<longrightarrow>
        fst (getStatus srv n w) = Inr (map_js asSystemStatus (dataOf (srv (length (sent w))))))
   \<and> (fst (loadingPoll srv n d w) = Inr p \<longrightarrow>
        (\<exists>v. fst (getStatus srv n w) = Inr v
           \<and> p = (if v \<noteq> Null then systemStateOf v = Some Loading else False)))
   \<and> (fst (indexingPoll srv n d w) = Inr p \<longrightarrow>
        (\<exists>v. fst (getStatus srv n w) = Inr v
           \<and> p = (if v \<noteq> Null then systemStateOf v \<noteq> Some Ready else False)))"
proof -
  have a: "fst (loadingPoll srv n d w) =
      (case fst (getStatus srv n w) of
         Inl s \<Rightarrow> Inl s
       | Inr v \<Rightarrow> Inr (if v \<noteq> Null then systemStateOf v = Some Loading else False))"
    by (simp add: loadingPoll_def getStatus_def io_defs split: reply.splits)
  have b: "fst (indexingPoll srv n d w) =
      (case fst (getStatus srv n w) of
         Inl s \<Rightarrow> Inl s
       | Inr v \<Rightarrow> Inr (if v \<noteq> Null then systemStateOf v \<noteq> Some Ready else False))"
    by (simp add: indexingPoll_def getStatus_def io_defs split: reply.splits)
  show ?thesis
    unfolding a b unfolding getStatus_result
    by (cases "dataOf (srv (length (sent w)))") auto
qed

theorem getStatus_null_only_for_null_body_witness:
  "fst (getStatus (\<lambda>i. refused) ''tmdb'' startWorld) = Inl (Exit (-1))
   \<and> fst (loadingPoll (\<lambda>i. refused) ''tmdb'' 1 startWorld) = Inl (Exit (-1))
   \<and> fst (indexingPoll (\<lambda>i. replies 500 Ready) ''tmdb'' 1 startWorld) = Inl (Exit (-1))
   \<and> fst (getStatus (\<lambda>i. replies 200 Loaded) ''tmdb'' startWorld) \<noteq> Inr Null
   \<and> fst (getStatus (\<lambda>i. nullReply) ''tmdb'' startWorld) = Inr Null"
  using getStatus_null_only_for_null_body[of "\<lambda>i. refused" "''tmdb''" startWorld 1 False]
        getStatus_null_only_for_null_body[of "\<lambda>i. replies 500 Ready" "''tmdb''" startWorld 1 False]
        getStatus_null_only_for_null_body[of "\<lambda>i. replies 200 Loaded" "''tmdb''" startWorld 1 False]
        getStatus_null_only_for_null_body[of "\<lambda>i. nullReply" "''tmdb''" startWorld 1 False]
  by simp

text \<open>
  Against claim C10 as stated (\<open>getStatus\<close> never returns \<open>null\<close>, the \<open>null\<close>
  branches are unreachable): for a service that answers the status request with
  status 200 and the body \<open>null\<close>, \<open>getStatus\<close> returns \<open>null\<close>; the pass through
  either loop body takes the \<open>else\<close> branch and sets \<open>proceed\<close> to \<open>false\<close>, and
  either loop ends normally after one status request.
\<close>

theorem getStatus_returns_null:
  "fst (getStatus (\<lambda>i. nullReply) ''tmdb'' startWorld) = Inr Null
   \<and> fst (loadingPoll (\<lambda>i. nullReply) ''tmdb'' 1 startWorld) = Inr False
   \<and> fst (indexingPoll (\<lambda>i. nullReply) ''tmdb'' 1 startWorld) = Inr False
   \<and> fst (loadingLoop (\<lambda>i. nullReply) ''tmdb'' 3 0 startWorld) = Inr ()
   \<and> fst (indexingLoop (\<lambda>i. nullReply) ''tmdb'' 3 0 startWorld) = Inr ()
   \<and> length (sent (snd (indexingLoop (\<lambda>i. nullReply) ''tmdb'' 3 0 startWorld))) = 1"
  by code_simp

section \<open>The missing data file (lines 847-853)\<close>

text \<open>
  Claim C9. When the descriptor is given but no file exists at its \<open>filePath\<close>,
  \<open>loadDataset\<close> returns at once: it sends no request, and what it prints ends with
  the line naming \<open>path.resolve(config.filePath)\<close>, after the error line that names
  the path as configured.
\<close>

theorem missing_file_aborts:
  "readFile h (filePath config) = None \<Longrightarrow>
   loadDataset h srv fuel datasetName (Some config) uri w =
     (Inl Return,
      w\<lparr>console := console w @
         [WriteError (''Data file not found: '' @ filePath config),
          WriteInfo ''Please ensure the data file exists in the correct location.'',
          WriteInfo (''Expected path: '' @ resolve h (filePath config))]\<rparr>)
   \<and> sent (snd (loadDataset h srv fuel datasetName (Some config) uri w)) = sent w"
  by (simp add: loadDataset_def validate_def io_defs)

theorem missing_file_aborts_witness:
  "fst (loadDataset exampleHost (\<lambda>i. replies 200 Ready) 3 ''tmdb''
          (Some (tmdb\<lparr>filePath := ''data/none.json''\<rparr>)) ''http://localhost/'' startWorld) = Inl Return
   \<and> sent (snd (loadDataset exampleHost (\<lambda>i. replies 200 Ready) 3 ''tmdb''
          (Some (tmdb\<lparr>filePath := ''data/none.json''\<rparr>)) ''http://localhost/'' startWorld)) = []
   \<and> last (console (snd (loadDataset exampleHost (\<lambda>i. replies 200 Ready) 3 ''tmdb''
          (Some (tmdb\<lparr>filePath := ''data/none.json''\<rparr>)) ''http://localhost/'' startWorld)))
       = WriteInfo ''Expected path: /app/data/none.json''"
proof -
  have "readFile exampleHost (filePath (tmdb\<lparr>filePath := ''data/none.json''\<rparr>)) = None"
    by (simp add: exampleHost_def)
  from missing_file_aborts[OF this, of "\<lambda>i. replies 200 Ready" 3 "''tmdb''" "''http://localhost/''" startWorld]
  show ?thesis by (simp add: startWorld_def exampleHost_def)
qed

section \<open>Descriptor lookup (getConfig, and main lines 82-88)\<close>

lemma main_unknown:
  "selected args = Some d \<Longrightarrow> getConfig (toLowerCase h) d = None \<Longrightarrow>
   fst (main h srv fuel args w) = Inl Return \<and> sent (snd (main h srv fuel args w)) = sent w"
  by (auto simp: main_def mainBody_def selected_def showInteractiveMenu_def io_defs Let_def
           split: option.splits if_splits)

text \<open>
  Claim C6. \<open>getConfig\<close> finds a descriptor exactly when the lowercased name is one of
  the names \<open>getAvailableDatasets\<close> lists; the descriptor it returns is the fixed one
  of that name; two names with the same lowercase form get the same answer, so the
  lookup does not depend on case. Being a function, it has no effect and its
  descriptors cannot change. For a name without descriptor \<open>main\<close> returns before
  it sends any request, and so does \<open>loadDataset\<close> when it is handed \<open>null\<close>.
\<close>

theorem descriptor_lookup:
  "(getConfig lower d \<noteq> None \<longleftrightarrow> lower d \<in> set getAvailableDatasets)
   \<and> (getConfig lower d = Some c \<longrightarrow> DatasetConfig.name c = lower d \<and> (c = tmdb \<or> c = pokedex))
   \<and> (lower d = lower d' \<longrightarrow> getConfig lower d = getConfig lower d')
   \<and> (selected args = Some d \<and> getConfig (toLowerCase h) d = None \<longrightarrow>
        fst (main h srv fuel args w) = Inl Return \<and> sent (snd (main h srv fuel args w)) = sent w)
   \<and> fst (loadDataset h srv fuel d None uri w) = Inl Return
   \<and> sent (snd (loadDataset h srv fuel d None uri w)) = sent w"
  using main_unknown[of args d h srv fuel w]
  by (auto simp: getConfig_def getAvailableDatasets_def Let_def tmdb_def pokedex_def
        loadDataset_def validate_def io_defs split: if_splits)

theorem descriptor_lookup_witness:
  "getConfig (map asciiLower) ''TMDB'' = Some tmdb
   \<and> getConfig (map asciiLower) ''TMDB'' = getConfig (map asciiLower) ''tmdb''
   \<and> getConfig (map asciiLower) ''movies'' = None
   \<and> sent (snd (main exampleHost (\<lambda>i. replies 200 Ready) 3 movies startWorld)) = []"
proof -
  have a: "getConfig (map asciiLower) ''TMDB'' = Some tmdb"
    by (simp add: getConfig_def asciiLower_def)
  have b: "getConfig (toLowerCase exampleHost) ''movies'' = None"
    by (simp add: getConfig_def exampleHost_def asciiLower_def)
  have c: "selected movies = Some ''movies''"
    by (simp add: selected_def movies_def)
  from descriptor_lookup[of "map asciiLower" "''TMDB''" tmdb "''tmdb''" movies exampleHost
      "\<lambda>i. replies 200 Ready" 3 startWorld]
    descriptor_lookup[of "map asciiLower" "''movies''" tmdb "''movies''" movies exampleHost
      "\<lambda>i. replies 200 Ready" 3 startWorld]
    a b c
  show ?thesis by (simp add: asciiLower_def startWorld_def exampleHost_def)
qed

section \<open>The body of the searchable-fields call (lines 760-794)\<close>

lemma setSearchableFields_sent:
  "sent (snd (setSearchableFields srv n fs w))
     = sent w @ [apiRequest PUT SetSearchableFields n (Json (tuples fs))]"
  by (simp add: setSearchableFields_def io_defs split: reply.splits)

text \<open>
  Claim C2, as the code has it. \<open>setSearchableFields\<close> sends one request whose body is
  an array with one element per field, in the order of the fields; each element is an
  object with exactly the two properties \<open>Item1\<close> (the field name) and \<open>Item2\<close> (the
  weight), in that order. For the descriptors of \<open>getConfig\<close> every weight is 0, 1 or
  2. The body is never the array of two-element arrays, and never the array of objects
  with the properties \<open>name\<close> and \<open>weight\<close>.
\<close>

theorem searchable_fields_body:
  "sent (snd (setSearchableFields srv n fs w))
     = sent w @ [apiRequest PUT SetSearchableFields n (Json (tuples fs))]
   \<and> (\<exists>items. tuples fs = JArr items \<and> length items = length fs
        \<and> (\<forall>i<length fs. items ! i =
              JObj [(''Item1'', JStr (SearchableField.name (fs ! i))),
                    (''Item2'', JNum (of_int (weight (fs ! i))))]))
   \<and> (getConfig lower d = Some c \<longrightarrow> (\<forall>f\<in>set (searchableFields c). weight f \<in> {0, 1, 2}))
   \<and> (fs \<noteq> [] \<longrightarrow> tuples fs \<noteq> positionalTuples fs \<and> tuples fs \<noteq> nameWeightObjects fs)"
proof -
  have "fs \<noteq> [] \<longrightarrow> tuples fs \<noteq> positionalTuples fs \<and> tuples fs \<noteq> nameWeightObjects fs"
    by (cases fs) (simp_all add: tuples_def positionalTuples_def nameWeightObjects_def)
  moreover have "getConfig lower d = Some c \<longrightarrow> (\<forall>f\<in>set (searchableFields c). weight f \<in> {0, 1, 2})"
    by (auto simp: getConfig_def Let_def tmdb_def pokedex_def split: if_splits)
  moreover have "\<exists>items. tuples fs = JArr items \<and> length items = length fs
        \<and> (\<forall>i<length fs. items ! i =
              JObj [(''Item1'', JStr (SearchableField.name (fs ! i))),
                    (''Item2'', JNum (of_int (weight (fs ! i))))])"
    by (simp add: tuples_def)
  ultimately show ?thesis using setSearchableFields_sent by blast
qed

theorem searchable_fields_body_witness:
  "tuples (searchableFields pokedex) =
     JArr [JObj [(''Item1'', JStr ''name''), (''Item2'', JNum 0)],
           JObj [(''Item1'', JStr ''type1''), (''Item2'', JNum 1)],
           JObj [(''Item1'', JStr ''type2''), (''Item2'', JNum 2)]]
   \<and> weight (searchableFields pokedex ! 2) \<in> {0, 1, 2}
   \<and> tuples (searchableFields pokedex) \<noteq> nameWeightObjects (searchableFields pokedex)"
proof -
  have a: "getConfig (map asciiLower) ''pokedex'' = Some pokedex"
    by (simp add: getConfig_def asciiLower_def)
  have b: "searchableFields pokedex \<noteq> []" "searchableFields pokedex ! 2 \<in> set (searchableFields pokedex)"
    by (simp_all add: pokedex_def)
  have c: "tuples (searchableFields pokedex) =
     JArr [JObj [(''Item1'', JStr ''name''), (''Item2'', JNum 0)],
           JObj [(''Item1'', JStr ''type1''), (''Item2'', JNum 1)],
           JObj [(''Item1'', JStr ''type2''), (''Item2'', JNum 2)]]"
    by (simp add: tuples_def pokedex_def)
  from searchable_fields_body[of "\<lambda>i. replies 200 Ready" "''pokedex''" "searchableFields pokedex"
      startWorld "map asciiLower" "''pokedex''" pokedex] a b c
  show ?thesis by blast
qed

text \<open>
  Against claim C2 as stated (each field an ordered two-element tuple, never an object
  with named properties): the body sent for the descriptor \<open>tmdb\<close> is an array of
  objects with the named properties \<open>Item1\<close> and \<open>Item2\<close>, not the array of
  tuples.
\<close>

theorem searchable_fields_not_positional:
  "tuples (searchableFields tmdb) =
     JArr [JObj [(''Item1'', JStr ''title''), (''Item2'', JNum 0)],
           JObj [(''Item1'', JStr ''original_title''), (''Item2'', JNum 1)],
           JObj [(''Item1'', JStr ''description''), (''Item2'', JNum 1)],
           JObj [(''Item1'', JStr ''actors''), (''Item2'', JNum 2)]]
   \<and> positionalTuples (searchableFields tmdb) =
     JArr [JArr [JStr ''title'', JNum 0],
           JArr [JStr ''original_title'', JNum 1],
           JArr [JStr ''description'', JNum 1],
           JArr [JStr ''actors'', JNum 2]]
   \<and> tuples (searchableFields tmdb) \<noteq> positionalTuples (searchableFields tmdb)"
  by (simp add: tuples_def positionalTuples_def tmdb_def)

section \<open>The optional filters (lines 970-1004)\<close>

lemma returned_replies [simp]:
  "returned (replies 200 st) = Val (body st ''f'')" "returned (replies 500 st) = Null"
  "returned refused = Null" "returned nullReply = Null" "returned emptyReply = Blank"
  by (simp_all add: returned_def)

lemma returned_Val: "returned r = Val p \<Longrightarrow> accepted r"
  by (simp add: returned_def split: if_splits)

lemma createRangeFilter_eq:
  "createRangeFilter srv n j w =
     (Inr (map_js asFilterProxy (returned (srv (length (sent w))))),
      w\<lparr>sent := sent w @ [apiRequest PUT CreateRangeFilter n (Json j)]\<rparr>)"
  by (simp add: createRangeFilter_def returned_def accepted_def dataOf_def io_defs
        split: reply.splits)

lemma createValueFilter_eq:
  "createValueFilter srv n j w =
     (Inr (map_js asFilterProxy (returned (srv (length (sent w))))),
      w\<lparr>sent := sent w @ [apiRequest PUT CreateValueFilter n (Json j)]\<rparr>)"
  by (simp add: createValueFilter_def returned_def accepted_def dataOf_def io_defs
        split: reply.splits)

lemma combineFilters_eq:
  "combineFilters srv n j w =
     (Inr (map_js asFilterProxy (returned (srv (length (sent w))))),
      w\<lparr>sent := sent w @ [apiRequest PUT CombineFilters n (Json j)]\<rparr>)"
  by (simp add: combineFilters_def returned_def accepted_def dataOf_def io_defs
        split: reply.splits)

lemma createBoost_eq:
  "createBoost srv n j w =
     (Inr (map_js asBoostProxy (returned (srv (length (sent w))))),
      w\<lparr>sent := sent w @ [apiRequest PUT CreateBoost n (Json j)]\<rparr>)"
  by (simp add: createBoost_def returned_def accepted_def dataOf_def io_defs
        split: reply.splits)

text \<open>
  The requests of the filter step, for every service: the range-filter and the
  value-filter request always; the combine request exactly when both calls returned a
  proxy (an accepted reply whose body is neither \<open>null\<close> nor empty); the boost
  request exactly when the combine call returned one too.
\<close>

lemma createFilters_eq:
  "DatasetConfig.name config = ''pokedex'' \<Longrightarrow>
   createFilters srv config w =
    (Inr (),
     w\<lparr>sent := sent w @
        [apiRequest PUT CreateRangeFilter ''pokedex''
           (Json (JObj [(''fieldName'', JStr ''speed''), (''lowerLimit'', JNum 10.5),
                        (''upperLimit'', JNum 50.0)])),
         apiRequest PUT CreateValueFilter ''pokedex''
           (Json (JObj [(''fieldName'', JStr ''speed''), (''value'', JNum 50)]))]
        @ (case (returned (srv (length (sent w))), returned (srv (length (sent w) + 1))) of
             (Val p1, Val p2) \<Rightarrow>
               apiRequest PUT CombineFilters ''pokedex''
                 (Json (JObj [(''a'', FilterProxy_json (asFilterProxy p1)),
                              (''b'', FilterProxy_json (asFilterProxy p2)),
                              (''useAndOperation'', JBool True)]))
               # (case returned (srv (length (sent w) + 2)) of
                    Val p3 \<Rightarrow>
                      [apiRequest PUT CreateBoost ''pokedex''
                         (Json (JObj [(''filterProxy'', FilterProxy_json (asFilterProxy p3)),
                                      (''boostStrength'', JNum 3)]))]
                  | _ \<Rightarrow> [])
           | _ \<Rightarrow> [])\<rparr>)"
  by (simp add: createFilters_def createRangeFilter_eq createValueFilter_eq combineFilters_eq
        createBoost_eq andThen_def result_def split: js.splits)

lemma createFilters_other:
  "DatasetConfig.name config \<noteq> ''pokedex'' \<Longrightarrow> createFilters srv config w = (Inr (), w)"
  by (simp add: createFilters_def result_def)

lemma createFilters_requests:
  "DatasetConfig.name config = ''pokedex'' \<Longrightarrow>
   fst (createFilters srv config w) = Inr ()
   \<and> console (snd (createFilters srv config w)) = console w
   \<and> map endpoint (sent (snd (createFilters srv config w))) =
       map endpoint (sent w) @ [CreateRangeFilter, CreateValueFilter]
       @ (if (\<exists>p1. returned (srv (length (sent w))) = Val p1)
             \<and> (\<exists>p2. returned (srv (length (sent w) + 1)) = Val p2)
          then CombineFilters
               # (if \<exists>p3. returned (srv (length (sent w) + 2)) = Val p3 then [CreateBoost]
                  else [])
          else [])"
  unfolding createFilters_eq
  by (auto simp: apiRequest_def split: js.splits)


text \<open>
  Claim C8, at the only combine-filters call of the program: with a service that accepts
  every request, the body of the call has the properties \<open>a\<close>, \<open>b\<close> and
  \<open>useAndOperation\<close>. It is not the JSON of any value of the declared interface
  \<open>CombinedFilterProxy\<close>, whose properties are \<open>filter1\<close>, \<open>filter2\<close> and
  \<open>useAnd\<close>.
\<close>

theorem combine_body_at_call_site:
  "content (sent (snd (createFilters (\<lambda>i. replies 200 Ready) pokedex startWorld)) ! 2) =
     Json (JObj [(''a'', JObj [(''id'', JStr ''f''), (''fieldName'', JStr ''speed'')]),
                 (''b'', JObj [(''id'', JStr ''f''), (''fieldName'', JStr ''speed'')]),
                 (''useAndOperation'', JBool True)])
   \<and> (\<forall>c. content (sent (snd (createFilters (\<lambda>i. replies 200 Ready) pokedex startWorld)) ! 2)
          \<noteq> Json (CombinedFilterProxy_json c))"
proof -
  have n: "DatasetConfig.name pokedex = ''pokedex''" by (simp add: pokedex_def)
  show ?thesis
    unfolding createFilters_eq[OF n]
    by (simp add: startWorld_def apiRequest_def FilterProxy_json_def body_def proxy_def
          CombinedFilterProxy_json_def)
qed

section \<open>Weakest preconditions of the calls\<close>

lemma wp_result [simp]: "wp (result a) Q w = Q (Inr a) w"
  by (simp add: wp_def result_def)

lemma wp_halt [simp]: "wp (halt s) Q w = Q (Inl s) w"
  by (simp add: wp_def halt_def)

lemma wp_emit [simp]: "wp (emit ls) Q w = Q (Inr ()) (w\<lparr>console := console w @ ls\<rparr>)"
  by (simp add: wp_def emit_def)

lemma wp_andThen [simp]:
  "wp (andThen m f) Q w =
     wp m (\<lambda>r w'. case r of Inl s \<Rightarrow> Q (Inl s) w' | Inr a \<Rightarrow> wp (f a) Q w') w"
  by (simp add: wp_def andThen_def split: prod.splits sum.splits)

lemma wp_if [simp]: "wp (if b then m1 else m2) Q w = (if b then wp m1 Q w else wp m2 Q w)"
  by simp

lemma wp_eq: "m w = (r, w') \<Longrightarrow> wp m Q w = Q r w'"
  by (simp add: wp_def)

lemma wpD: "wp m Q w \<Longrightarrow> Q (fst (m w)) (snd (m w))"
  by (auto simp: wp_def split: prod.splits)

lemma wpI: "Q (fst (m w)) (snd (m w)) \<Longrightarrow> wp m Q w"
  by (auto simp: wp_def split: prod.splits)

lemma wp_mono: "wp m Q w \<Longrightarrow> (\<And>r w'. Q r w' \<Longrightarrow> Q' r w') \<Longrightarrow> wp m Q' w"
  by (auto simp: wp_def split: prod.splits)

lemma wp_createOrOpenDataSet:
  "wp (createOrOpenDataSet h srv rt n) Q w =
    Q (Inr (accepted (srv (length (sent w)))))
      (w\<lparr>sent := sent w @ [\<lparr> verb = PUT, route = rt, endpoint = CreateOrOpen, dataSet = n,
                               content = Text [], headers = [] \<rparr>],
          console := console w @
            (case srv (length (sent w)) of
               Resolved response \<Rightarrow>
                 if is2xx response then []
                 else [ConsoleLog (''CreateOrOpenDataSet response error: '' @ statusText response)]
             | Rejected error \<Rightarrow>
                 [ConsoleError (''CreateOrOpenDataSet error: '' @ inspect h error)])\<rparr>)"
  by (auto simp: wp_def createOrOpenDataSet_def io_defs accepted_def is2xx_def split: reply.splits)

lemma wp_analyze:
  "wp (analyze h srv n f) Q w =
    (case readFile h f of
       None \<Rightarrow> Q (Inr Null)
         (w\<lparr>console := console w @ [ConsoleError (''Analyze error: '' @ inspect h (noSuchFile h f))]\<rparr>)
     | Some fullFile \<Rightarrow>
         Q (Inr (map_js asSystemStatus (returned (srv (length (sent w))))))
           (w\<lparr>sent := sent w @ [(apiRequest POST AnalyzeString n (Text fullFile))
                                   \<lparr>headers := [(''Content-Type'', ''text/plain'')]\<rparr>],
               console := console w @
                 (case srv (length (sent w)) of
                    Resolved response \<Rightarrow> []
                  | Rejected error \<Rightarrow> [ConsoleError (''Analyze error: '' @ inspect h error)])\<rparr>))"
  by (auto simp: wp_def analyze_def io_defs returned_def accepted_def dataOf_def
        split: reply.splits option.splits)

lemma wp_readStrings:
  "wp (readStrings srv req m1 m2) Q w =
    (if accepted (srv (length (sent w)))
     then Q (Inr (map_js asStrings (dataOf (srv (length (sent w))))))
            (w\<lparr>sent := sent w @ [req]\<rparr>)
     else Q (Inl (Exit (-1)))
            (w\<lparr>sent := sent w @ [req],
                console := console w @
                  [ConsoleLog (case srv (length (sent w)) of
                     Resolved response \<Rightarrow> m1 | Rejected error \<Rightarrow> m2)]\<rparr>))"
  by (auto simp: wp_def readStrings_def io_defs accepted_def dataOf_def split: reply.splits)

lemma wp_getStatus:
  "wp (getStatus srv n) Q w =
    (if accepted (srv (length (sent w)))
     then Q (Inr (map_js asSystemStatus (dataOf (srv (length (sent w))))))
            (w\<lparr>sent := sent w @ [apiRequest GET GetStatus n NoContent]\<rparr>)
     else Q (Inl (Exit (-1)))
            (w\<lparr>sent := sent w @ [apiRequest GET GetStatus n NoContent],
                console := console w @
                  [ConsoleLog (case srv (length (sent w)) of
                     Resolved response \<Rightarrow> ''System status request failed, type any char to exit''
                   | Rejected error \<Rightarrow> ''GetStatus request failed'')]\<rparr>))"
  by (auto simp: wp_def getStatus_def io_defs accepted_def dataOf_def split: reply.splits)

lemma wp_putNames:
  "wp (putNames srv e n fs) Q w =
    Q (Inr (accepted (srv (length (sent w)))))
      (w\<lparr>sent := sent w @ [apiRequest PUT e n (Json (JArr (map JStr fs)))]\<rparr>)"
  by (auto simp: wp_def putNames_def io_defs accepted_def split: reply.splits)

lemma wp_setSearchableFields:
  "wp (setSearchableFields srv n fs) Q w =
    Q (Inr (accepted (srv (length (sent w)))))
      (w\<lparr>sent := sent w @ [apiRequest PUT SetSearchableFields n (Json (tuples fs))],
          console := console w @
            (case srv (length (sent w)) of
               Resolved response \<Rightarrow> []
             | Rejected error \<Rightarrow>
                 [ConsoleError (''SetSearchableFields error: '' @ dataOrMessage error)])\<rparr>)"
  by (auto simp: wp_def setSearchableFields_def io_defs accepted_def split: reply.splits)

lemma wp_indexDataSet:
  "wp (indexDataSet srv n) Q w =
    Q (Inr (accepted (srv (length (sent w)))))
      (w\<lparr>sent := sent w @ [apiRequest GET IndexDataSet n NoContent]\<rparr>)"
  by (auto simp: wp_def indexDataSet_def io_defs accepted_def split: reply.splits)

lemma wp_getNumberOfJsonRecordsInDb:
  "wp (getNumberOfJsonRecordsInDb srv n) Q w =
    Q (Inr (if accepted (srv (length (sent w)))
            then map_js asNumber (dataOf (srv (length (sent w)))) else Val 0))
      (w\<lparr>sent := sent w @ [apiRequest GET GetNumberOfJsonRecordsInDb n NoContent]\<rparr>)"
  by (auto simp: wp_def getNumberOfJsonRecordsInDb_def io_defs accepted_def dataOf_def
        split: reply.splits)

lemma wp_loadStreamAsync:
  "wp (loadStreamAsync h srv n f) Q w =
    (case readFile h f of
       None \<Rightarrow> Q (Inr False)
         (w\<lparr>console := console w @
            [ConsoleError (''LoadStreamAsync error: '' @ dataOrMessage (noSuchFile h f))]\<rparr>)
     | Some bytes \<Rightarrow>
         Q (Inr (accepted (srv (length (sent w)))))
           (w\<lparr>sent := sent w @ [(apiRequest PUT LoadStream n (Stream bytes))
                 \<lparr>headers := [(''Content-Type'', ''text/plain''),
                               (''Content-Length'', showNat (length bytes))]\<rparr>],
               console := console w @
                 (case srv (length (sent w)) of
                    Resolved response \<Rightarrow> []
                  | Rejected error \<Rightarrow>
                      [ConsoleError (''LoadStreamAsync error: '' @ dataOrMessage error)])\<rparr>))"
  by (auto simp: wp_def loadStreamAsync_def io_defs accepted_def split: reply.splits option.splits)

lemma wp_search:
  "wp (search h srv q n) Q w =
    Q (Inr (map_js asResult (returned (srv (length (sent w))))))
      (w\<lparr>sent := sent w @ [apiRequest POST Search n (Json q)],
          console := console w @
            (case srv (length (sent w)) of
               Resolved response \<Rightarrow> []
             | Rejected error \<Rightarrow> [ConsoleError (''Search error: '' @ inspect h error)])\<rparr>)"
  by (auto simp: wp_def search_def io_defs returned_def accepted_def dataOf_def
        split: reply.splits)

lemma wp_createFilters:
  "wp (createRangeFilter srv n j) Q w =
     Q (Inr (map_js asFilterProxy (returned (srv (length (sent w))))))
       (w\<lparr>sent := sent w @ [apiRequest PUT CreateRangeFilter n (Json j)]\<rparr>)"
  "wp (createValueFilter srv n j) Q w =
     Q (Inr (map_js asFilterProxy (returned (srv (length (sent w))))))
       (w\<lparr>sent := sent w @ [apiRequest PUT CreateValueFilter n (Json j)]\<rparr>)"
  "wp (combineFilters srv n j) Q w =
     Q (Inr (map_js asFilterProxy (returned (srv (length (sent w))))))
       (w\<lparr>sent := sent w @ [apiRequest PUT CombineFilters n (Json j)]\<rparr>)"
  "wp (createBoost srv n j) Q' w =
     Q' (Inr (map_js asBoostProxy (returned (srv (length (sent w))))))
       (w\<lparr>sent := sent w @ [apiRequest PUT CreateBoost n (Json j)]\<rparr>)"
  by (simp_all add: wp_def createRangeFilter_eq createValueFilter_eq combineFilters_eq
        createBoost_eq)


lemmas wp_calls = wp_createOrOpenDataSet wp_analyze wp_readStrings wp_getStatus wp_putNames
  wp_setSearchableFields wp_indexDataSet wp_getNumberOfJsonRecordsInDb wp_loadStreamAsync
  wp_search wp_createFilters

lemma accepted_Resolved [simp]: "accepted (Resolved response) = is2xx response"
  and accepted_Rejected [simp]: "\<not> accepted (Rejected error)"
  by (simp_all add: accepted_def)

lemma endpoint_apiRequest [simp]: "endpoint (apiRequest v e n c) = e"
  by (simp add: apiRequest_def)

lemma returned_not_accepted [simp]: "\<not> accepted r \<Longrightarrow> returned r = Null"
  by (simp add: returned_def)

lemma map_js_Null [simp]: "map_js f v = Null \<longleftrightarrow> v = Null"
  by (cases v) simp_all

section \<open>The order of the phases (lines 861-1092)\<close>



lemma case_js_map [simp]:
  "(case map_js f v of Null \<Rightarrow> a | Blank \<Rightarrow> b | Val x \<Rightarrow> c x)
     = (case v of Null \<Rightarrow> a | Blank \<Rightarrow> b | Val x \<Rightarrow> c (f x))"
  by (cases v) simp_all

lemma returned_accepted: "returned r \<noteq> Null \<Longrightarrow> accepted r"
  by (simp add: returned_def split: if_splits)

lemma inOrder_alt:
  "inOrder srv k tr \<longleftrightarrow>
    (\<forall>i<length tr. \<forall>e. precedes (endpoint (tr ! i)) = Some e \<longrightarrow>
       (\<exists>j<i. endpoint (tr ! j) = e \<and> accepted (srv (k + j))))"
  by (auto simp: inOrder_def split: option.splits)

lemma good_start: "good srv (length tr) {} tr"
  by (simp add: good_def inOrder_def)

lemma good_weaken: "good srv k E tr \<Longrightarrow> E' \<subseteq> E \<Longrightarrow> good srv k E' tr"
  by (auto simp: good_def)

lemma good_sub: "good srv k E tr \<Longrightarrow> good srv k {} tr"
  by (erule good_weaken) simp

lemma good_inOrder: "good srv k E tr \<Longrightarrow> inOrder srv k (drop k tr)"
  by (simp add: good_def)

lemma good_snoc:
  assumes g: "good srv k E tr"
    and p: "\<forall>e. precedes (endpoint req) = Some e \<longrightarrow> e \<in> E"
  shows "good srv k (if accepted (srv (length tr)) then insert (endpoint req) E else E)
           (tr @ [req])"
proof -
  let ?tr = "drop k tr"
  from g have k: "k \<le> length tr" and io: "inOrder srv k ?tr"
    and E: "\<forall>e\<in>E. \<exists>j<length tr - k. endpoint (?tr ! j) = e \<and> accepted (srv (k + j))"
    by (auto simp: good_def)
  have d: "drop k (tr @ [req]) = ?tr @ [req]" using k by simp
  have len: "length ?tr = length tr - k" by simp
  have io': "inOrder srv k (?tr @ [req])"
    unfolding inOrder_alt
  proof (intro allI impI)
    fix i e
    assume i: "i < length (?tr @ [req])"
      and pe: "precedes (endpoint ((?tr @ [req]) ! i)) = Some e"
    show "\<exists>j<i. endpoint ((?tr @ [req]) ! j) = e \<and> accepted (srv (k + j))"
    proof (cases "i < length ?tr")
      case True
      with pe have "precedes (endpoint (?tr ! i)) = Some e" by (simp add: nth_append)
      with io True obtain j where "j < i" "endpoint (?tr ! j) = e" "accepted (srv (k + j))"
        unfolding inOrder_alt by blast
      with True show ?thesis by (auto simp: nth_append intro!: exI[of _ j])
    next
      case False
      with i have ieq: "i = length ?tr" by simp
      with pe have "precedes (endpoint req) = Some e" by (simp add: nth_append)
      with p have "e \<in> E" by blast
      with E obtain j where "j < length tr - k" "endpoint (?tr ! j) = e"
        "accepted (srv (k + j))"
        by blast
      with ieq len show ?thesis by (auto simp: nth_append intro!: exI[of _ j])
    qed
  qed
  have E': "\<forall>e\<in>(if accepted (srv (length tr)) then insert (endpoint req) E else E).
      \<exists>j<length (tr @ [req]) - k. endpoint ((?tr @ [req]) ! j) = e \<and> accepted (srv (k + j))"
  proof
    fix e
    assume e: "e \<in> (if accepted (srv (length tr)) then insert (endpoint req) E else E)"
    show "\<exists>j<length (tr @ [req]) - k.
            endpoint ((?tr @ [req]) ! j) = e \<and> accepted (srv (k + j))"
    proof (cases "e \<in> E")
      case True
      with E obtain j where "j < length tr - k" "endpoint (?tr ! j) = e"
        "accepted (srv (k + j))"
        by blast
      then show ?thesis using k by (auto simp: nth_append intro!: exI[of _ j])
    next
      case False
      with e have a: "accepted (srv (length tr))" and eq: "e = endpoint req"
        by (auto split: if_splits)
      show ?thesis using a eq k by (auto simp: nth_append intro!: exI[of _ "length tr - k"])
    qed
  qed
  show ?thesis using k io' E' d by (simp add: good_def)
qed

lemma good_extends:
  "good srv k E0 tr \<Longrightarrow> extends srv (length tr) E0 rs E \<Longrightarrow> good srv k E (tr @ rs)"
proof (induction rs arbitrary: tr E0)
  case Nil
  then show ?case by (auto elim: good_weaken)
next
  case (Cons r rs)
  from Cons.prems have p: "\<forall>e. precedes (endpoint r) = Some e \<longrightarrow> e \<in> E0"
    and x: "extends srv (Suc (length tr))
              (if accepted (srv (length tr)) then insert (endpoint r) E0 else E0) rs E"
    by auto
  from Cons.IH[OF good_snoc[OF Cons.prems(1) p]] x show ?case by simp
qed

lemma validate_good:
  assumes g: "good srv k E (sent w)"
    and stop: "\<And>s w'. good srv k {} (sent w') \<Longrightarrow> Q (Inl s) w'"
    and cont: "\<And>c w'. good srv k E (sent w') \<Longrightarrow> Q (Inr c) w'"
  shows "wp (validate h dn cfg') Q w"
  using g
  by (auto simp: validate_def split: option.splits intro!: stop cont elim: good_sub)

lemma openDataset_good:
  assumes g: "good srv k E (sent w)"
    and stop: "\<And>s w'. good srv k {} (sent w') \<Longrightarrow> Q (Inl s) w'"
    and cont: "\<And>w'. good srv k {CreateOrOpen} (sent w') \<Longrightarrow> Q (Inr ()) w'"
  shows "wp (openDataset h srv config) Q w"
  by (auto simp: openDataset_def wp_calls intro!: stop cont good_extends[OF g])

lemma analyzeData_good:
  assumes g: "good srv k E (sent w)" and m: "CreateOrOpen \<in> E"
    and stop: "\<And>s w'. good srv k {} (sent w') \<Longrightarrow> Q (Inl s) w'"
    and cont: "\<And>w'. good srv k {AnalyzeString} (sent w') \<Longrightarrow> Q (Inr ()) w'"
  shows "wp (analyzeData h srv config) Q w"
  using m good_sub[OF g]
  by (auto simp: analyzeData_def getAllFields_def wp_calls apiRequest_def
           split: option.splits js.splits dest: returned_accepted
           intro!: stop cont good_extends[OF g])


lemma configureSearchable_good:
  assumes g: "good srv k E (sent w)" and m: "AnalyzeString \<in> E"
    and stop: "\<And>s w'. good srv k {} (sent w') \<Longrightarrow> Q (Inl s) w'"
    and cont: "\<And>w'. good srv k {SetSearchableFields} (sent w') \<Longrightarrow> Q (Inr ()) w'"
  shows "wp (configureSearchable srv config) Q w"
  using m
  by (auto simp: configureSearchable_def wp_calls intro!: stop cont good_extends[OF g])

lemma configureFilterable_good:
  assumes g: "good srv k E (sent w)" and m: "SetSearchableFields \<in> E"
    and stop: "\<And>s w'. good srv k {} (sent w') \<Longrightarrow> Q (Inl s) w'"
    and cont: "\<And>w'. good srv k {SetFilterableFields} (sent w') \<Longrightarrow> Q (Inr ()) w'"
  shows "wp (configureFilterable srv config) Q w"
  using m
  by (auto simp: configureFilterable_def setFilterableFields_def wp_calls
           intro!: stop cont good_extends[OF g])

lemma configureFacetable_good:
  assumes g: "good srv k E (sent w)" and m: "SetFilterableFields \<in> E"
    and stop: "\<And>s w'. good srv k {} (sent w') \<Longrightarrow> Q (Inl s) w'"
    and cont: "\<And>w'. good srv k {SetFacetableFields} (sent w') \<Longrightarrow> Q (Inr ()) w'"
  shows "wp (configureFacetable srv config) Q w"
  using m
  by (auto simp: configureFacetable_def setFacetableFields_def wp_calls
           intro!: stop cont good_extends[OF g])

lemma configureSortable_good:
  assumes g: "good srv k E (sent w)" and m: "SetFacetableFields \<in> E"
    and stop: "\<And>s w'. good srv k {} (sent w') \<Longrightarrow> Q (Inl s) w'"
    and cont: "\<And>w'. good srv k {SetSortableFields} (sent w') \<Longrightarrow> Q (Inr ()) w'"
  shows "wp (configureSortable srv config) Q w"
  using m
  by (auto simp: configureSortable_def setSortableFields_def wp_calls
           intro!: stop cont good_extends[OF g])

lemma configureWordIndexing_good:
  assumes g: "good srv k E (sent w)" and m: "SetSortableFields \<in> E"
    and stop: "\<And>s w'. good srv k {} (sent w') \<Longrightarrow> Q (Inl s) w'"
    and cont: "\<And>w'. good srv k {SetWordIndexingFields} (sent w') \<Longrightarrow> Q (Inr ()) w'"
  shows "wp (configureWordIndexing srv config) Q w"
  using m
  by (auto simp: configureWordIndexing_def setWordIndexingFields_def wp_calls
           intro!: stop cont good_extends[OF g])

lemma configureFields_good:
  assumes g: "good srv k E (sent w)" and m: "AnalyzeString \<in> E"
    and stop: "\<And>s w'. good srv k {} (sent w') \<Longrightarrow> Q (Inl s) w'"
    and cont: "\<And>w'. good srv k {SetWordIndexingFields} (sent w') \<Longrightarrow> Q (Inr ()) w'"
  shows "wp (configureFields srv config) Q w"
  unfolding configureFields_def wp_andThen
  apply (rule configureSearchable_good[OF g m])
   apply (simp add: stop)
  apply simp
  apply (rule configureFilterable_good, assumption, simp)
   apply (simp add: stop)
  apply simp
  apply (rule configureFacetable_good, assumption, simp)
   apply (simp add: stop)
  apply simp
  apply (rule configureSortable_good, assumption, simp)
   apply (simp add: stop)
  apply simp
  apply (rule configureWordIndexing_good, assumption, simp)
   apply (simp add: stop)
  apply (simp add: cont)
  done

lemma verifyFields_good:
  assumes g: "good srv k E (sent w)"
    and stop: "\<And>s w'. good srv k {} (sent w') \<Longrightarrow> Q (Inl s) w'"
    and cont: "\<And>w'. good srv k E (sent w') \<Longrightarrow> Q (Inr ()) w'"
  shows "wp (verifyFields srv config) Q w"
  by (auto simp: verifyFields_def getSearchableFields_def getSortableFields_def
        getFacetableFields_def getFilterableFields_def getWordIndexingFields_def wp_calls
        intro!: stop cont good_extends[OF g])

lemma createFilters_good:
  assumes g: "good srv k E (sent w)"
    and cont: "\<And>w'. good srv k E (sent w') \<Longrightarrow> Q (Inr ()) w'"
  shows "wp (createFilters srv config) Q w"
  using g
  by (auto simp: createFilters_def wp_calls split: js.splits
        intro!: cont good_extends[OF g])

lemma loadData_good:
  assumes g: "good srv k E (sent w)" and m: "SetWordIndexingFields \<in> E"
    and stop: "\<And>s w'. good srv k {} (sent w') \<Longrightarrow> Q (Inl s) w'"
    and cont: "\<And>w'. good srv k {LoadStream} (sent w') \<Longrightarrow> Q (Inr ()) w'"
  shows "wp (loadData h srv config) Q w"
  using m good_sub[OF g]
  by (auto simp: loadData_def wp_calls apiRequest_def split: option.splits
        intro!: stop cont good_extends[OF g])

lemma loadingPoll_good:
  assumes g: "good srv k E (sent w)"
    and all: "\<And>r w'. good srv k E (sent w') \<Longrightarrow> Q r w'"
  shows "wp (loadingPoll srv n d) Q w"
  by (auto simp: loadingPoll_def wp_calls intro!: all good_extends[OF g])

lemma loadingLoop_good:
  assumes g: "good srv k E (sent w)"
    and all: "\<And>r w'. good srv k E (sent w') \<Longrightarrow> Q r w'"
  shows "wp (loadingLoop srv n fuel d) Q w"
  using g
proof (induction fuel arbitrary: d w)
  case 0
  then show ?case by (simp add: all)
next
  case (Suc fuel)
  show ?case
    apply (simp del: wp_if)
    apply (rule loadingPoll_good[OF Suc.prems])
    apply (auto split: sum.splits intro!: all Suc.IH)
    done
qed

lemma indexingPoll_good:
  assumes g: "good srv k E (sent w)"
    and all: "\<And>r w'. good srv k E (sent w') \<Longrightarrow> Q r w'"
  shows "wp (indexingPoll srv n d) Q w"
  by (auto simp: indexingPoll_def wp_calls intro!: all good_extends[OF g])

lemma indexingLoop_good:
  assumes g: "good srv k E (sent w)"
    and all: "\<And>r w'. good srv k E (sent w') \<Longrightarrow> Q r w'"
  shows "wp (indexingLoop srv n fuel d) Q w"
  using g
proof (induction fuel arbitrary: d w)
  case 0
  then show ?case by (simp add: all)
next
  case (Suc fuel)
  show ?case
    apply (simp del: wp_if)
    apply (rule indexingPoll_good[OF Suc.prems])
    apply (auto split: sum.splits intro!: all Suc.IH)
    done
qed

lemma countRecords_good:
  assumes g: "good srv k E (sent w)"
    and all: "\<And>r w'. good srv k E (sent w') \<Longrightarrow> Q r w'"
  shows "wp (countRecords h srv config) Q w"
  by (auto simp: countRecords_def wp_calls split: option.splits
        intro!: all good_extends[OF g])

lemma buildIndex_good:
  assumes g: "good srv k E (sent w)" and m: "LoadStream \<in> E"
    and stop: "\<And>s w'. good srv k {} (sent w') \<Longrightarrow> Q (Inl s) w'"
    and cont: "\<And>w'. good srv k {IndexDataSet} (sent w') \<Longrightarrow> Q (Inr ()) w'"
  shows "wp (buildIndex srv config) Q w"
  using m
  by (auto simp: buildIndex_def wp_calls intro!: stop cont good_extends[OF g])

lemma displayResults_good:
  assumes g: "good srv k E (sent w)"
    and all: "\<And>r w'. good srv k E (sent w') \<Longrightarrow> Q r w'"
  shows "wp (displayResults h srv n num recs) Q w"
  using g
proof (induction recs arbitrary: num w)
  case Nil
  then show ?case by (simp add: all)
next
  case (Cons item rest)
  show ?case
    by (auto simp: getJson_def wp_calls
             intro!: all Cons.IH good_extends[OF Cons.prems])
qed

lemma testSearch_good:
  assumes g: "good srv k E (sent w)" and m: "IndexDataSet \<in> E"
    and all: "\<And>r w'. good srv k {} (sent w') \<Longrightarrow> Q r w'"
  shows "wp (testSearch h srv config) Q w"
  using m
  by (auto simp: testSearch_def wp_calls simp del: displayResults.simps
           split: option.splits list.splits sum.splits js.splits
           intro!: all displayResults_good[where k=k and E="{}"] good_extends[OF g])

lemma split_all:
  assumes stop: "\<And>s w'. good srv k {} (sent w') \<Longrightarrow> Q (Inl s) w'"
    and cont: "\<And>a w'. good srv k E (sent w') \<Longrightarrow> Q (Inr a) w'"
    and g: "good srv k E (sent w')"
  shows "Q r w'"
  by (cases r) (auto intro: stop cont good_sub[OF g] g)

lemma loadDataset_good:
  assumes g: "good srv k {} (sent w)"
  shows "wp (loadDataset h srv fuel dn cfg' uri) (\<lambda>r w'. good srv k {} (sent w')) w"
  unfolding loadDataset_def
  apply simp
  apply (rule validate_good[OF g], simp, simp)
  apply (rule openDataset_good, assumption, simp, simp)
  apply (rule analyzeData_good, assumption, simp, simp, simp)
  apply (rule configureFields_good, assumption, simp, simp, simp)
  apply (rule verifyFields_good, assumption, simp, simp)
  apply (rule createFilters_good, assumption, simp)
  apply (rule loadData_good, assumption, simp, simp, simp)
  apply (rule loadingLoop_good, assumption, rule split_all, simp, simp)
   prefer 2 apply assumption
  apply (rule countRecords_good, assumption, rule split_all, simp, simp)
   prefer 2 apply assumption
  apply (rule buildIndex_good, assumption, simp, simp, simp)
  apply (rule indexingLoop_good, assumption, rule split_all, simp, simp)
   prefer 2 apply assumption
  apply (simp add: indexBuilt_def)
  apply (rule testSearch_good, simp, simp)
  apply (rule split_all[where E="{}"], simp)
   prefer 2 apply assumption
  apply (simp add: summarize_def writeSummary_def split: option.splits)
  done

lemma open_fails:
  "readFile h (filePath config) \<noteq> None \<Longrightarrow> \<not> accepted (srv (length (sent w))) \<Longrightarrow>
   wp (loadDataset h srv fuel dn (Some config) uri)
     (\<lambda>r w'. r = Inl Return \<and>
        sent w' = sent w @ [\<lparr> verb = PUT, route = ''api'', endpoint = CreateOrOpen,
                               dataSet = DatasetConfig.name config, content = Text [],
                               headers = [] \<rparr>]) w"
  by (auto simp: loadDataset_def validate_def openDataset_def wp_calls
        SEARCH_CONTROLLER_ROUTE_def)

lemmas phase_defs = loadDataset_def validate_def openDataset_def analyzeData_def
  configureFields_def configureSearchable_def configureFilterable_def configureFacetable_def
  configureSortable_def configureWordIndexing_def verifyFields_def
  getAllFields_def getSearchableFields_def getSortableFields_def getFacetableFields_def
  getFilterableFields_def getWordIndexingFields_def setFilterableFields_def
  setFacetableFields_def setSortableFields_def setWordIndexingFields_def

lemma tmdb_file: "readFile exampleHost (filePath tmdb) = Some ''[]''"
  by (simp add: exampleHost_def tmdb_def)

lemma tmdb_name: "DatasetConfig.name tmdb = ''tmdb''"
  by (simp add: tmdb_def)

lemma healthy_run:
  "wp (loadDataset exampleHost (\<lambda>i. replies 200 Ready) (Suc (Suc (Suc 0))) ''tmdb''
         (Some tmdb) [])
     (\<lambda>r w'. r = Inr () \<and> map endpoint (sent w') =
       [CreateOrOpen, AnalyzeString, GetStatus, GetAllFields, SetSearchableFields,
        SetFilterableFields, SetFacetableFields, SetSortableFields, SetWordIndexingFields,
        GetSearchableFields, GetSortableFields, GetFacetableFields, GetFilterableFields,
        GetWordIndexingFields, LoadStream, GetStatus, GetStatus, GetNumberOfJsonRecordsInDb,
        IndexDataSet, GetStatus, Search, GetJson]) startWorld"
  by (simp add: phase_defs loadData_def countRecords_def buildIndex_def indexBuilt_def
        testSearch_def summarize_def writeSummary_def createFilters_def loadingPoll_def
        indexingPoll_def getJson_def wp_calls tmdb_file tmdb_name startWorld_def body_def
        statusIn_def systemStateOf_def localeString_def)

text \<open>
  Claim C4. In every run of \<open>loadDataset\<close>, followed in its two loops for any number
  of polls, the requests it has sent are in order: the request of each phase (Analyze,
  the five set calls of Configure, Load, Index, Search) comes after a request of the
  phase before it that the service accepted. In particular, when the descriptor and
  its file exist and the create-or-open request is not accepted, the run returns having
  sent that one request and no other.
\<close>

theorem phases_in_order:
  "inOrder srv (length (sent w))
     (drop (length (sent w)) (sent (snd (loadDataset h srv fuel dn cfg' uri w))))
   \<and> (cfg' = Some config \<and> readFile h (filePath config) \<noteq> None
        \<and> \<not> accepted (srv (length (sent w))) \<longrightarrow>
      fst (loadDataset h srv fuel dn cfg' uri w) = Inl Return
      \<and> sent (snd (loadDataset h srv fuel dn cfg' uri w)) =
          sent w @ [\<lparr> verb = PUT, route = ''api'', endpoint = CreateOrOpen,
                       dataSet = DatasetConfig.name config, content = Text [],
                       headers = [] \<rparr>])"
proof -
  have "good srv (length (sent w)) {} (sent (snd (loadDataset h srv fuel dn cfg' uri w)))"
    using wpD[OF loadDataset_good[OF good_start]] .
  then have a: "inOrder srv (length (sent w))
     (drop (length (sent w)) (sent (snd (loadDataset h srv fuel dn cfg' uri w))))"
    by (rule good_inOrder)
  show ?thesis using a wpD[OF open_fails, of h config srv w fuel dn uri] by auto
qed

theorem phases_in_order_witness:
  "fst (loadDataset exampleHost (\<lambda>i. refused) 3 ''tmdb'' (Some tmdb) [] startWorld) = Inl Return
   \<and> map endpoint (sent (snd (loadDataset exampleHost (\<lambda>i. refused) 3 ''tmdb'' (Some tmdb) []
         startWorld))) = [CreateOrOpen]
   \<and> map endpoint (sent (snd (loadDataset exampleHost (\<lambda>i. replies 200 Ready)
         (Suc (Suc (Suc 0))) ''tmdb'' (Some tmdb) [] startWorld))) =
       [CreateOrOpen, AnalyzeString, GetStatus, GetAllFields, SetSearchableFields,
        SetFilterableFields, SetFacetableFields, SetSortableFields, SetWordIndexingFields,
        GetSearchableFields, GetSortableFields, GetFacetableFields, GetFilterableFields,
        GetWordIndexingFields, LoadStream, GetStatus, GetStatus, GetNumberOfJsonRecordsInDb,
        IndexDataSet, GetStatus, Search, GetJson]
   \<and> inOrder (\<lambda>i. replies 200 Ready) 0
        (sent (snd (loadDataset exampleHost (\<lambda>i. replies 200 Ready)
           (Suc (Suc (Suc 0))) ''tmdb'' (Some tmdb) [] startWorld)))"
proof -
  have "readFile exampleHost (filePath tmdb) \<noteq> None"
    by (simp add: tmdb_file)
  moreover have "\<not> accepted ((\<lambda>i. refused) (length (sent startWorld)))"
    by simp
  ultimately have a:
    "fst (loadDataset exampleHost (\<lambda>i. refused) 3 ''tmdb'' (Some tmdb) [] startWorld)
       = Inl Return
     \<and> map endpoint (sent (snd (loadDataset exampleHost (\<lambda>i. refused) 3 ''tmdb''
          (Some tmdb) [] startWorld))) = [CreateOrOpen]"
    using phases_in_order[of "\<lambda>i. refused" startWorld exampleHost 3 "''tmdb''" "Some tmdb"
        "[]" tmdb]
    by (simp add: startWorld_def)
  have b: "inOrder (\<lambda>i. replies 200 Ready) 0
        (sent (snd (loadDataset exampleHost (\<lambda>i. replies 200 Ready)
           (Suc (Suc (Suc 0))) ''tmdb'' (Some tmdb) [] startWorld)))"
    using phases_in_order[of "\<lambda>i. replies 200 Ready" startWorld exampleHost
        "Suc (Suc (Suc 0))" "''tmdb''" "Some tmdb" "[]" tmdb]
    by (simp add: startWorld_def)
  from a b wpD[OF healthy_run] show ?thesis by simp
qed

section \<open>The verification reads (lines 960-968)\<close>

lemma andThen_assoc: "andThen (andThen m f) g = andThen m (\<lambda>a. andThen (f a) g)"
  by (rule ext) (simp add: andThen_def split: prod.splits sum.splits)

lemma andThen_result: "andThen (result a) f = f a"
  by (rule ext) (simp add: andThen_def result_def)

lemma loadDataset_throughStep9:
  "loadDataset h srv fuel dn cfg' uri =
     andThen (throughStep9 h srv dn cfg') (\<lambda>config.
     andThen (verifyFields srv config) (\<lambda>_.
     andThen (createFilters srv config) (\<lambda>_.
     andThen (loadData h srv config) (\<lambda>_.
     andThen (loadingLoop srv (DatasetConfig.name config) fuel 0) (\<lambda>_.
     andThen (countRecords h srv config) (\<lambda>numberOfRecords.
     andThen (buildIndex srv config) (\<lambda>_.
     andThen (indexingLoop srv (DatasetConfig.name config) fuel 0) (\<lambda>_.
     andThen (indexBuilt h) (\<lambda>_.
     andThen (testSearch h srv config) (\<lambda>resultsCount.
       summarize h config numberOfRecords resultsCount))))))))))"
  by (simp add: loadDataset_def throughStep9_def andThen_assoc andThen_result)

lemma andThen_stops: "fst (m w) = Inl s \<Longrightarrow> andThen m f w = m w"
  by (cases "m w") (simp add: andThen_def)

lemma verifyFields_fails:
  assumes j: "j < 5"
    and before: "\<forall>i<j. accepted (srv (length (sent w) + i))"
    and at: "\<not> accepted (srv (length (sent w) + j))"
  shows "wp (verifyFields srv config)
           (\<lambda>r w'. r = Inl (Exit (-1)) \<and> length (sent w') = length (sent w) + j + 1
              \<and> (\<exists>msg. console w' = console w
                    @ [WriteInfo ''Verifying field configuration...'', ConsoleLog msg])) w"
proof -
  from j have "j = 0 \<or> j = 1 \<or> j = 2 \<or> j = 3 \<or> j = 4" by arith
  moreover have a0: "0 < j \<Longrightarrow> accepted (srv (length (sent w)))"
    using before by force
  moreover have a1: "1 < j \<Longrightarrow> accepted (srv (Suc (length (sent w))))"
    using before[rule_format, of 1] by simp
  moreover have a2: "2 < j \<Longrightarrow> accepted (srv (Suc (Suc (length (sent w)))))"
    using before[rule_format, of 2] by simp
  moreover have a3: "3 < j \<Longrightarrow> accepted (srv (Suc (Suc (Suc (length (sent w))))))"
    using before[rule_format, of 3] by (simp add: eval_nat_numeral)
  ultimately show ?thesis
    using at
    by (elim disjE)
       (simp_all add: verifyFields_def getSearchableFields_def getSortableFields_def
          getFacetableFields_def getFilterableFields_def getWordIndexingFields_def wp_calls
          eval_nat_numeral)
qed

text \<open>
  Claim C3, as the code has it. In a run whose five set calls have all succeeded (it has
  reached the end of Step 9 in the world \<open>w1\<close>), when the verification read number
  \<open>j\<close> is the first that is not accepted, the whole run ends with
  \<open>process.exit(-1)\<close>: the read prints one \<open>console.log\<close> line, and the requests
  sent are those up to and including that read, none after it.
\<close>

theorem verification_failure_exits:
  assumes "throughStep9 h srv dn cfg' w = (Inr config, w1)"
    and "j < 5"
    and "\<forall>i<j. accepted (srv (length (sent w1) + i))"
    and "\<not> accepted (srv (length (sent w1) + j))"
  shows "fst (loadDataset h srv fuel dn cfg' uri w) = Inl (Exit (-1))
    \<and> length (sent (snd (loadDataset h srv fuel dn cfg' uri w))) = length (sent w1) + j + 1
    \<and> (\<exists>msg. console (snd (loadDataset h srv fuel dn cfg' uri w)) =
          console w1 @ [WriteInfo ''Verifying field configuration...'', ConsoleLog msg])"
proof -
  let ?rest = "\<lambda>_.
     andThen (createFilters srv config) (\<lambda>_.
     andThen (loadData h srv config) (\<lambda>_.
     andThen (loadingLoop srv (DatasetConfig.name config) fuel 0) (\<lambda>_.
     andThen (countRecords h srv config) (\<lambda>numberOfRecords.
     andThen (buildIndex srv config) (\<lambda>_.
     andThen (indexingLoop srv (DatasetConfig.name config) fuel 0) (\<lambda>_.
     andThen (indexBuilt h) (\<lambda>_.
     andThen (testSearch h srv config) (\<lambda>resultsCount.
       summarize h config numberOfRecords resultsCount))))))))"
  have v: "fst (verifyFields srv config w1) = Inl (Exit (-1))"
    "length (sent (snd (verifyFields srv config w1))) = length (sent w1) + j + 1"
    "\<exists>msg. console (snd (verifyFields srv config w1)) =
          console w1 @ [WriteInfo ''Verifying field configuration...'', ConsoleLog msg]"
    using wpD[OF verifyFields_fails[OF assms(2,3,4)], of config] by auto
  have "loadDataset h srv fuel dn cfg' uri w = andThen (verifyFields srv config) ?rest w1"
    unfolding loadDataset_throughStep9 using assms(1) by (simp add: andThen_def)
  also have "\<dots> = verifyFields srv config w1"
    using v(1) by (rule andThen_stops[where m="verifyFields srv config" and w=w1])
  finally show ?thesis using v by simp
qed

theorem verification_failure_exits_witness:
  "fst (loadDataset exampleHost (\<lambda>i. if i = 11 then replies 500 Ready else replies 200 Ready)
         3 ''tmdb'' (Some tmdb) [] startWorld) = Inl (Exit (-1))
   \<and> length (sent (snd (loadDataset exampleHost
         (\<lambda>i. if i = 11 then replies 500 Ready else replies 200 Ready)
         3 ''tmdb'' (Some tmdb) [] startWorld))) = 12"
proof -
  let ?srv = "\<lambda>i::nat. if i = 11 then replies 500 Ready else replies 200 Ready"
  let ?w1 = "snd (throughStep9 exampleHost ?srv ''tmdb'' (Some tmdb) startWorld)"
  have "wp (throughStep9 exampleHost ?srv ''tmdb'' (Some tmdb))
          (\<lambda>r w'. r = Inr tmdb \<and> length (sent w') = 9) startWorld"
    by (simp add: throughStep9_def phase_defs wp_calls tmdb_file startWorld_def)
  from wpD[OF this]
  have r: "throughStep9 exampleHost ?srv ''tmdb'' (Some tmdb) startWorld = (Inr tmdb, ?w1)"
    and l: "length (sent ?w1) = 9"
    by (auto simp: prod_eq_iff)
  have b: "\<forall>i<2. accepted (?srv (length (sent ?w1) + i))"
    by (simp add: l)
  have a: "\<not> accepted (?srv (length (sent ?w1) + 2))"
    by (simp add: l)
  from verification_failure_exits[OF r _ b a, of 3 "[]"] l
  show ?thesis by simp
qed

text \<open>
  Against claim C3 as stated (a failed verification read never aborts the run): with
  the descriptor \<open>tmdb\<close> and a service that accepts everything but rejects the first
  verification read, the tenth request, the run ends with exit code -1 right after
  that read.
\<close>

theorem verification_failure_is_fatal:
  "fst (loadDataset exampleHost (\<lambda>i. if i = 9 then refused else replies 200 Ready)
         3 ''tmdb'' (Some tmdb) [] startWorld) = Inl (Exit (-1))
   \<and> map endpoint (sent (snd (loadDataset exampleHost
         (\<lambda>i. if i = 9 then refused else replies 200 Ready)
         3 ''tmdb'' (Some tmdb) [] startWorld))) =
       [CreateOrOpen, AnalyzeString, GetStatus, GetAllFields, SetSearchableFields,
        SetFilterableFields, SetFacetableFields, SetSortableFields, SetWordIndexingFields,
        GetSearchableFields]"
proof -
  have "wp (loadDataset exampleHost (\<lambda>i. if i = 9 then refused else replies 200 Ready)
              3 ''tmdb'' (Some tmdb) [])
          (\<lambda>r w'. r = Inl (Exit (-1)) \<and> map endpoint (sent w') =
             [CreateOrOpen, AnalyzeString, GetStatus, GetAllFields, SetSearchableFields,
              SetFilterableFields, SetFacetableFields, SetSortableFields,
              SetWordIndexingFields, GetSearchableFields]) startWorld"
    by (simp add: phase_defs wp_calls tmdb_file startWorld_def)
  from wpD[OF this] show ?thesis .
qed

end
